theory Spec2Isabelle
  imports Main
begin

section \<open>The graph object model\<close>

text \<open>
  Every object of a cannoli graph (edge, node or group) carries a status, a kind and a
  list of dependency entries, and reaches the other objects through the shared
  \<open>graph\<close> record, which maps ids to objects. The classes of \<open>models/edge.ts\<close>,
  \<open>models/group.ts\<close> and \<open>models/node.ts\<close> are embedded as one record whose \<open>cls\<close>
  field is the runtime class that \<open>instanceof\<close> and method dispatch read.
\<close>

datatype CannoliObjectStatus = Pending | Executing | Complete | Rejected

datatype CannoliObjectKind = Node | Edge | Group

datatype cannoli_class =
    CannoliEdge | ChatConverterEdge | SystemMessageEdge | LoggingEdge | ChatResponseEdge
  | CannoliGroup | ListGroup | RepeatGroup | ForEachGroup
  | CannoliNode | CallNode | FormNode | AccumulateNode | ChooseNode
  | ContentNode | ReferenceNode | HttpNode | FormatterNode | FloatingNode

text \<open>
  The chain of classes of each class, itself first. The \<open>extends\<close> clauses are those of
  the sources. Modelled from the spec: the declarations of \<open>ChatResponseEdge\<close> and
  \<open>ForEachGroup\<close> are not among the sources; the first is used as a kind of
  \<open>CannoliEdge\<close> by \<open>loadOutgoingEdges\<close>, the second is the iteration kind of the
  repeat group, read through \<open>currentLoop\<close> by the logging edge.
\<close>

fun ancestors :: "cannoli_class \<Rightarrow> cannoli_class list" where
  "ancestors CannoliEdge = [CannoliEdge]"
| "ancestors ChatConverterEdge = [ChatConverterEdge, CannoliEdge]"
| "ancestors SystemMessageEdge = [SystemMessageEdge, CannoliEdge]"
| "ancestors LoggingEdge = [LoggingEdge, CannoliEdge]"
| "ancestors ChatResponseEdge = [ChatResponseEdge, CannoliEdge]"
| "ancestors CannoliGroup = [CannoliGroup]"
| "ancestors ListGroup = [ListGroup, CannoliGroup]"
| "ancestors RepeatGroup = [RepeatGroup, CannoliGroup]"
| "ancestors ForEachGroup = [ForEachGroup, RepeatGroup, CannoliGroup]"
| "ancestors CannoliNode = [CannoliNode]"
| "ancestors CallNode = [CallNode, CannoliNode]"
| "ancestors FormNode = [FormNode, CallNode, CannoliNode]"
| "ancestors AccumulateNode = [AccumulateNode, CallNode, CannoliNode]"
| "ancestors ChooseNode = [ChooseNode, CallNode, CannoliNode]"
| "ancestors ContentNode = [ContentNode, CannoliNode]"
| "ancestors ReferenceNode = [ReferenceNode, ContentNode, CannoliNode]"
| "ancestors HttpNode = [HttpNode, ContentNode, CannoliNode]"
| "ancestors FormatterNode = [FormatterNode, ContentNode, CannoliNode]"
| "ancestors FloatingNode = [FloatingNode, CannoliNode]"

definition instanceof :: "cannoli_class \<Rightarrow> cannoli_class \<Rightarrow> bool" where
  "instanceof c d = (d \<in> set (ancestors c))"

text \<open>\<open>x instanceof CannoliVertex\<close>: the groups and the nodes.\<close>

definition instanceof_CannoliVertex :: "cannoli_class \<Rightarrow> bool" where
  "instanceof_CannoliVertex c = (instanceof c CannoliGroup \<or> instanceof c CannoliNode)"

text \<open>
  The enumerations of \<open>models/graph.ts\<close>, with the members the sources name; the
  last constructor of each stands for the members they do not name.
\<close>

datatype EdgeType =
    EdgeType_Chat | EdgeType_SystemMessage | EdgeType_ChatResponse | EdgeType_Choice
  | EdgeType_Item | EdgeType_Logging | EdgeType_Config | EdgeType_Field | EdgeType_List
  | EdgeType_Merge | EdgeType_Variable | EdgeType_Write | EdgeType_other string

datatype ContentNodeType =
    ContentNodeType_Http | ContentNodeType_Hook | ContentNodeType_Output
  | ContentNodeType_StandardContent | ContentNodeType_other string

datatype GroupType =
    GroupType_Basic | GroupType_List | GroupType_NonLogic | GroupType_Repeat
  | GroupType_ForEach

datatype object_type =
    OfEdge EdgeType | OfContentNode ContentNodeType | OfGroup GroupType | OfOther string

text \<open>A dependency entry is \<open>string | string[]\<close>.\<close>

datatype dependency = DepId string | DepArray "string list"

text \<open>The payload of an edge is \<open>string | Record<string, string>\<close>.\<close>

datatype edge_content = Text string | Dict "(string \<times> string) list"

text \<open>
  A chat message: its role, its optional content and its optional function call (name
  and arguments).
\<close>

record message =
  role :: string
  msg_content :: "string option"
  function_call :: "(string \<times> string) option"

text \<open>
  What JavaScript raises: a \<open>TypeError\<close> on reading a property of \<open>undefined\<close>, a
  \<open>RangeError\<close> when the call stack is exhausted, a \<open>SyntaxError\<close> when \<open>JSON.parse\<close>
  rejects its text, and the \<open>Error\<close>s the sources throw, with their message.
\<close>

datatype error = TypeError | RangeError | SyntaxError | Error string

text \<open>
  An entry of \<open>incomingEdges\<close>/\<open>outgoingEdges\<close> of \<open>models/group.ts\<close> is
  \<open>{ id, isReflexive }\<close>: a pair, the id first.
\<close>

type_synonym edge_ref = "string \<times> bool"

record cannoli_object =
  id' :: string
  text' :: string
  status :: CannoliObjectStatus
  kind :: CannoliObjectKind
  cls :: cannoli_class
  type' :: object_type
  dependencies :: "dependency list"
  groups :: "string list"
  incomingEdges :: "edge_ref list"
  outgoingEdges :: "edge_ref list"
  color :: "string option"
  members :: "string list"
  maxLoops :: int
  currentLoop :: "int option"
  numberOfVersions :: int
  copyId :: int
  source :: string
  target :: string
  crossingInGroups :: "string list"
  crossingOutGroups :: "string list"
  isReflexive :: bool
  addMessages :: bool
  content :: "edge_content option"
  messages :: "message list option"

text \<open>
  \<open>currentLoop\<close> is optional because the constructor of \<open>RepeatGroup\<close> does not assign
  it: it stays \<open>undefined\<close> until \<open>reset\<close> writes 0. \<open>color\<close> is \<open>canvasData.color\<close>.
\<close>

type_synonym graph = "string \<rightharpoonup> cannoli_object"

section \<open>JavaScript values and library functions\<close>

text \<open>
  A string is the list of its UTF-16 code units, and a character of the model is a code
  unit below 256: the model covers the strings made of such code units, where an index
  into the JavaScript string and an index into the list agree. \<open>trim\<close> and \<open>trimStart\<close>
  remove the white space and the line terminators; below 256 these are the tab, the line
  feed, the vertical tab, the form feed, the carriage return, the space and the no-break
  space.
\<close>

definition js_whitespace :: "char \<Rightarrow> bool" where
  "js_whitespace c =
     (c \<in> set [CHR 0x09, CHR 0x0A, CHR 0x0B, CHR 0x0C, CHR 0x0D, CHR '' '', CHR 0xA0])"

definition trimStart :: "string \<Rightarrow> string" where
  "trimStart s = dropWhile js_whitespace s"

definition trim :: "string \<Rightarrow> string" where
  "trim s = rev (dropWhile js_whitespace (rev (dropWhile js_whitespace s)))"

text \<open>\<open>s.split("\n")[0]\<close>: the text before the first line feed.\<close>

definition first_line :: "string \<Rightarrow> string" where
  "first_line s = takeWhile (\<lambda>c. c \<noteq> CHR 0x0A) s"

text \<open>\<open>s.startsWith(p)\<close> and \<open>s.endsWith(p)\<close>.\<close>

definition startsWith :: "string \<Rightarrow> string \<Rightarrow> bool" where
  "startsWith s p = (take (length p) s = p)"

definition endsWith :: "string \<Rightarrow> string \<Rightarrow> bool" where
  "endsWith s p = (length p \<le> length s \<and> drop (length s - length p) s = p)"

text \<open>
  \<open>s.substring(a, b)\<close> on natural numbers: the arguments are clamped to the length and
  swapped when \<open>a > b\<close>.
\<close>

definition substring :: "string \<Rightarrow> nat \<Rightarrow> nat \<Rightarrow> string" where
  "substring s a b =
     (let a' = min a (length s); b' = min b (length s)
      in take (max a' b' - min a' b') (drop (min a' b') s))"

text \<open>
  The values \<open>JSON.parse\<close> returns. Numbers are kept as integers: none of the
  properties below reads a fraction.
\<close>

datatype json =
    JNull | JBool bool | JNumber int | JString string
  | JArray "json list" | JObject "(string \<times> json) list"

text \<open>The truthiness of a parsed value, as \<open>if (contentObject)\<close> reads it.\<close>

fun truthy :: "json \<Rightarrow> bool" where
  "truthy JNull = False"
| "truthy (JBool b) = b"
| "truthy (JNumber n) = (n \<noteq> 0)"
| "truthy (JString s) = (s \<noteq> [])"
| "truthy (JArray xs) = True"
| "truthy (JObject kvs) = True"

text \<open>
  The functions of the JavaScript library and of \<open>remeda\<close> that the sources call are
  parameters of the model: \<open>JSON.parse\<close> (\<open>None\<close> when it throws a \<open>SyntaxError\<close>),
  \<open>JSON.stringify(value)\<close>, \<open>JSON.stringify(value, null, 2)\<close>, \<open>stringToPath\<close> and
  \<open>pathOr\<close>. With them come the setting \<open>this.run.chatFormatString\<close> of the run, and
  what \<open>stringToArray\<close> does with a format whose pattern is outside the regular
  expressions that the model interprets (there \<open>new RegExp\<close> may throw a \<open>SyntaxError\<close>).
\<close>

record js_env =
  JSON_parse :: "string \<Rightarrow> json option"
  JSON_stringify :: "json \<Rightarrow> string"
  JSON_stringify_indented :: "json \<Rightarrow> string"
  stringToPath :: "string \<Rightarrow> string list"
  pathOr :: "json \<Rightarrow> string list \<Rightarrow> json \<Rightarrow> json"
  chatFormatString :: string
  stringToArray_other :: "string \<Rightarrow> string \<Rightarrow> error + message list"

section \<open>Groups: \<open>models/group.ts\<close>\<close>

subsection \<open>Readiness of a group\<close>

text \<open>
  \<open>dependency.some((dep) => this.graph[dep].status === Complete)\<close>: stops at the first
  complete one; reading the status of an id that is not in the graph raises.
\<close>

fun some_Complete :: "graph \<Rightarrow> string list \<Rightarrow> error + bool" where
  "some_Complete g [] = Inr False"
| "some_Complete g (dep # deps) =
     (case g dep of
        None \<Rightarrow> Inl TypeError
      | Some ob \<Rightarrow> if status ob = Complete then Inr True else some_Complete g deps)"

text \<open>\<open>dependency.every((dep) => this.graph[dep].kind === Edge)\<close>.\<close>

fun every_Edge :: "graph \<Rightarrow> string list \<Rightarrow> error + bool" where
  "every_Edge g [] = Inr True"
| "every_Edge g (dep # deps) =
     (case g dep of
        None \<Rightarrow> Inl TypeError
      | Some ob \<Rightarrow> if kind ob = Edge then every_Edge g deps else Inr False)"

text \<open>
  The loop of \<open>allEdgeDependenciesComplete\<close> over \<open>this.dependencies\<close>: an entry either
  lets the loop \<open>continue\<close> or makes the method \<open>return false\<close>.
\<close>

fun allEdgeDependenciesComplete_loop :: "graph \<Rightarrow> dependency list \<Rightarrow> error + bool" where
  "allEdgeDependenciesComplete_loop g [] = Inr True"
| "allEdgeDependenciesComplete_loop g (DepArray ds # rest) =
     (case some_Complete g ds of
        Inl e \<Rightarrow> Inl e
      | Inr s \<Rightarrow>
          if s then
            (case every_Edge g ds of
               Inl e \<Rightarrow> Inl e
             | Inr a \<Rightarrow> if a then allEdgeDependenciesComplete_loop g rest else Inr False)
          else Inr False)"
| "allEdgeDependenciesComplete_loop g (DepId d # rest) =
     (case g d of
        None \<Rightarrow> Inl TypeError
      | Some ob \<Rightarrow>
          if status ob = Complete \<and> kind ob = Edge
          then allEdgeDependenciesComplete_loop g rest
          else Inr False)"

definition allEdgeDependenciesComplete :: "graph \<Rightarrow> cannoli_object \<Rightarrow> error + bool" where
  "allEdgeDependenciesComplete g this = allEdgeDependenciesComplete_loop g (dependencies this)"

fun allMembersCompleteOrRejected_loop :: "graph \<Rightarrow> string list \<Rightarrow> error + bool" where
  "allMembersCompleteOrRejected_loop g [] = Inr True"
| "allMembersCompleteOrRejected_loop g (member # rest) =
     (case g member of
        None \<Rightarrow> Inl TypeError
      | Some ob \<Rightarrow>
          if status ob \<noteq> Complete \<and> status ob \<noteq> Rejected then Inr False
          else allMembersCompleteOrRejected_loop g rest)"

definition allMembersCompleteOrRejected :: "graph \<Rightarrow> cannoli_object \<Rightarrow> error + bool" where
  "allMembersCompleteOrRejected g this = allMembersCompleteOrRejected_loop g (members this)"

text \<open>
  What a \<open>dependencyCompleted\<close> handler does: it calls \<open>this.execute\<close>, or
  \<open>this.membersFinished\<close>, or nothing.
\<close>

datatype call = CallExecute | CallMembersFinished | NoCall

definition CannoliGroup_dependencyCompleted :: "graph \<Rightarrow> cannoli_object \<Rightarrow> error + call" where
  "CannoliGroup_dependencyCompleted g this =
     (case status this of
        Pending \<Rightarrow>
          (case allEdgeDependenciesComplete g this of
             Inl e \<Rightarrow> Inl e
           | Inr b \<Rightarrow> Inr (if b then CallExecute else NoCall))
      | Executing \<Rightarrow>
          (case allMembersCompleteOrRejected g this of
             Inl e \<Rightarrow> Inl e
           | Inr b \<Rightarrow> Inr (if b then CallMembersFinished else NoCall))
      | _ \<Rightarrow> Inr NoCall)"

subsection \<open>Membership\<close>

text \<open>
  Modelled from the spec: \<open>CannoliObject.addDependency\<close> is defined in
  \<open>models/object.ts\<close>, which is not among the sources; it appends an id (or an array of
  ids) to the dependency list.
\<close>

definition addDependency :: "dependency \<Rightarrow> cannoli_object \<Rightarrow> cannoli_object" where
  "addDependency d ob = ob\<lparr>dependencies := dependencies ob @ [d]\<rparr>"

text \<open>
  \<open>for (const edge of this.incomingEdges) if (!edge.isReflexive)
  object.addDependency(edge.id)\<close>.
\<close>

fun addEdgeDependencies :: "edge_ref list \<Rightarrow> cannoli_object \<Rightarrow> cannoli_object" where
  "addEdgeDependencies [] ob = ob"
| "addEdgeDependencies (edge # rest) ob =
     addEdgeDependencies rest (if \<not> snd edge then addDependency (DepId (fst edge)) ob else ob)"

text \<open>
  \<open>setMembers\<close> of the group with id \<open>gid\<close>. The keys of \<open>this.graph\<close> are given in
  the order in which \<open>for ... in\<close> enumerates them. The group and the vertex are both
  updated in place, the group first; a receiver that is not in the graph does not arise
  in the program, and the model answers \<open>TypeError\<close> there.
\<close>

fun setMembers :: "string list \<Rightarrow> string \<Rightarrow> graph \<Rightarrow> error + graph" where
  "setMembers [] gid g = Inr g"
| "setMembers (objectId # rest) gid g =
     (case g objectId of
        None \<Rightarrow> Inl TypeError
      | Some object \<Rightarrow>
          if instanceof_CannoliVertex (cls object) \<and> gid \<in> set (groups object) then
            (case g gid of
               None \<Rightarrow> Inl TypeError
             | Some this \<Rightarrow>
                 let g1 = g(gid \<mapsto> addDependency (DepId (id' object))
                                     (this\<lparr>members := members this @ [id' object]\<rparr>))
                 in (case g1 objectId of
                       None \<Rightarrow> Inl TypeError
                     | Some object1 \<Rightarrow>
                         setMembers rest gid
                           (g1(objectId \<mapsto> addEdgeDependencies (incomingEdges this) object1))))
          else setMembers rest gid g)"

subsection \<open>Reset\<close>

text \<open>
  Modelled from the spec: \<open>CannoliObject.reset\<close> is defined in \<open>models/object.ts\<close>,
  which is not among the sources; it returns the status to Pending and clears any content
  and partial state (the payload and the message history of an edge).
\<close>

definition CannoliObject_reset :: "cannoli_object \<Rightarrow> cannoli_object" where
  "CannoliObject_reset ob = ob\<lparr>status := Pending, content := None, messages := None\<rparr>"

text \<open>\<open>CannoliEdge.reset\<close> of \<open>models/edge.ts\<close>.\<close>

definition CannoliEdge_reset :: "cannoli_object \<Rightarrow> cannoli_object" where
  "CannoliEdge_reset this = (if \<not> isReflexive this then CannoliObject_reset this else this)"

text \<open>\<open>RepeatGroup.reset\<close>: \<open>super.reset(run); this.currentLoop = 0\<close>.\<close>

definition RepeatGroup_reset :: "cannoli_object \<Rightarrow> cannoli_object" where
  "RepeatGroup_reset this = (CannoliObject_reset this)\<lparr>currentLoop := Some 0\<rparr>"

text \<open>\<open>ContentNode.getName\<close> and \<open>ContentNode.reset\<close> of \<open>models/node.ts\<close>.\<close>

definition ContentNode_getName :: "js_env \<Rightarrow> cannoli_object \<Rightarrow> string option" where
  "ContentNode_getName env this =
     (let firstLine = trim (first_line (text' this))
      in if startsWith firstLine ''['' \<and> endsWith firstLine '']'' \<and>
            type' this \<noteq> OfContentNode ContentNodeType_StandardContent
         then (case JSON_parse env firstLine of
                 Some v \<Rightarrow> None
               | None \<Rightarrow> Some (substring firstLine 1 (length firstLine - 1)))
         else None)"

definition ContentNode_reset :: "js_env \<Rightarrow> cannoli_object \<Rightarrow> cannoli_object" where
  "ContentNode_reset env this =
     CannoliObject_reset
       (if type' this = OfContentNode ContentNodeType_StandardContent \<or>
           type' this = OfContentNode ContentNodeType_Output
        then (if ContentNode_getName env this \<noteq> None \<and>
                 type' this \<noteq> OfContentNode ContentNodeType_StandardContent
              then this\<lparr>text' := first_line (text' this)\<rparr>
              else this\<lparr>text' := []\<rparr>)
        else this)"

text \<open>
  \<open>object.reset(run)\<close>: the method of the class of the object. \<open>ChatResponseEdge\<close> and
  \<open>ForEachGroup\<close>, whose declarations are not among the sources, are taken to inherit
  theirs.
\<close>

definition reset :: "js_env \<Rightarrow> cannoli_object \<Rightarrow> cannoli_object" where
  "reset env ob =
     (if instanceof (cls ob) CannoliEdge then CannoliEdge_reset ob
      else if instanceof (cls ob) RepeatGroup then RepeatGroup_reset ob
      else if instanceof (cls ob) ContentNode then ContentNode_reset env ob
      else CannoliObject_reset ob)"

subsection \<open>Repeat groups\<close>

text \<open>
  \<open>for (const edge of member.outgoingEdges) this.graph[edge.id].reset(run)\<close>: resetting
  an edge that is not in the graph raises.
\<close>

fun reset_outgoingEdges :: "js_env \<Rightarrow> edge_ref list \<Rightarrow> graph \<Rightarrow> error + graph" where
  "reset_outgoingEdges env [] g = Inr g"
| "reset_outgoingEdges env (edge # rest) g =
     (case g (fst edge) of
        None \<Rightarrow> Inl TypeError
      | Some eo \<Rightarrow> reset_outgoingEdges env rest (g(fst edge \<mapsto> reset env eo)))"

text \<open>The loop of \<open>RepeatGroup.resetMembers\<close> over \<open>this.getMembers()\<close>.\<close>

fun resetMembers_loop :: "js_env \<Rightarrow> string list \<Rightarrow> graph \<Rightarrow> error + graph" where
  "resetMembers_loop env [] g = Inr g"
| "resetMembers_loop env (member # rest) g =
     (case g member of
        None \<Rightarrow> Inl TypeError
      | Some mo \<Rightarrow>
          (case reset_outgoingEdges env (outgoingEdges (reset env mo))
                  (g(member \<mapsto> reset env mo)) of
             Inl e \<Rightarrow> Inl e
           | Inr g' \<Rightarrow> resetMembers_loop env rest g'))"

definition resetMembers :: "js_env \<Rightarrow> string \<Rightarrow> graph \<Rightarrow> error + graph" where
  "resetMembers env gid g =
     (case g gid of
        None \<Rightarrow> Inl TypeError
      | Some this \<Rightarrow> resetMembers_loop env (members this) g)"




section \<open>Readiness of edges and nodes\<close>

text \<open>
  Modelled from the spec: \<open>CannoliObject.allDependenciesComplete\<close> is defined in
  \<open>models/object.ts\<close>, which is not among the sources. It is true iff every entry
  evaluates true, where a plain id entry is true iff that object's status is Complete, and
  a set entry is true iff every member is of edge kind and at least one member is
  Complete. Reading an id that is not in the graph raises.
\<close>

fun allDependenciesComplete_loop :: "graph \<Rightarrow> dependency list \<Rightarrow> error + bool" where
  "allDependenciesComplete_loop g [] = Inr True"
| "allDependenciesComplete_loop g (DepId d # rest) =
     (case g d of
        None \<Rightarrow> Inl TypeError
      | Some ob \<Rightarrow>
          if status ob = Complete then allDependenciesComplete_loop g rest else Inr False)"
| "allDependenciesComplete_loop g (DepArray ds # rest) =
     (case every_Edge g ds of
        Inl e \<Rightarrow> Inl e
      | Inr a \<Rightarrow>
          if a then
            (case some_Complete g ds of
               Inl e \<Rightarrow> Inl e
             | Inr s \<Rightarrow> if s then allDependenciesComplete_loop g rest else Inr False)
          else Inr False)"

definition allDependenciesComplete :: "graph \<Rightarrow> cannoli_object \<Rightarrow> error + bool" where
  "allDependenciesComplete g this = allDependenciesComplete_loop g (dependencies this)"

text \<open>
  \<open>CannoliEdge.dependencyCompleted\<close> and \<open>CannoliNode.dependencyCompleted\<close>:
  \<open>if (this.allDependenciesComplete() && this.status === Pending) this.execute()\<close>.
\<close>

definition CannoliEdge_dependencyCompleted :: "graph \<Rightarrow> cannoli_object \<Rightarrow> error + call" where
  "CannoliEdge_dependencyCompleted g this =
     (case allDependenciesComplete g this of
        Inl e \<Rightarrow> Inl e
      | Inr b \<Rightarrow> Inr (if b \<and> status this = Pending then CallExecute else NoCall))"

definition CannoliNode_dependencyCompleted :: "graph \<Rightarrow> cannoli_object \<Rightarrow> error + call" where
  "CannoliNode_dependencyCompleted g this =
     (case allDependenciesComplete g this of
        Inl e \<Rightarrow> Inl e
      | Inr b \<Rightarrow> Inr (if b \<and> status this = Pending then CallExecute else NoCall))"

text \<open>
  \<open>this.crossingOutGroups.every((group) => !(this.graph[group] instanceof ForEachGroup)
  || this.graph[group].status === Complete)\<close>; an id that is not in the graph is not an
  instance of anything.
\<close>

definition forEachGroupsComplete :: "graph \<Rightarrow> string list \<Rightarrow> bool" where
  "forEachGroupsComplete g gs =
     list_all (\<lambda>grp.
        (case g grp of
           None \<Rightarrow> True
         | Some ob \<Rightarrow> \<not> instanceof (cls ob) ForEachGroup \<or> status ob = Complete)) gs"

text \<open>
  \<open>LoggingEdge.dependencyCompleted\<close>: it reads the status of the source and of the
  groups, never \<open>this.status\<close>.
\<close>

definition LoggingEdge_dependencyCompleted :: "graph \<Rightarrow> cannoli_object \<Rightarrow> error + call" where
  "LoggingEdge_dependencyCompleted g this =
     (case g (source this) of
        None \<Rightarrow> Inl TypeError
      | Some src \<Rightarrow>
          Inr (if status src = Complete \<and> forEachGroupsComplete g (crossingOutGroups this)
               then CallExecute else NoCall))"

text \<open>
  \<open>dependency.crossingOutGroups.some(...)\<close> of \<open>ContentNode.dependencyCompleted\<close>: an
  object that is not a group raises the \<open>Error\<close> of the source, an id that is not in
  the graph a \<open>TypeError\<close> (the message reads \<open>groupObject.id\<close>).
\<close>

fun some_ForEach :: "graph \<Rightarrow> string list \<Rightarrow> error + bool" where
  "some_ForEach g [] = Inr False"
| "some_ForEach g (grp # rest) =
     (case g grp of
        None \<Rightarrow> Inl TypeError
      | Some groupObject \<Rightarrow>
          if \<not> instanceof (cls groupObject) CannoliGroup
          then Inl (Error (''Error on object '' @ id' groupObject @ '': object is not a group.''))
          else if type' groupObject = OfGroup GroupType_ForEach then Inr True
          else some_ForEach g rest)"

text \<open>
  The first condition of \<open>ContentNode.dependencyCompleted\<close>: the dependency is a logging
  edge that crosses out of no ForEach group, or a chat response edge.
\<close>

definition loggingOrChatResponse :: "graph \<Rightarrow> cannoli_object \<Rightarrow> error + bool" where
  "loggingOrChatResponse g dep =
     (if instanceof (cls dep) LoggingEdge then
        (case some_ForEach g (crossingOutGroups dep) of
           Inl e \<Rightarrow> Inl e
         | Inr s \<Rightarrow> if \<not> s then Inr True else Inr (instanceof (cls dep) ChatResponseEdge))
      else Inr (instanceof (cls dep) ChatResponseEdge))"

text \<open>
  \<open>ContentNode.dependencyCompleted\<close>: on such a dependency it executes ``regardless of
  this node's status'', as its comment says; otherwise as \<open>CannoliNode\<close> does.
\<close>

definition ContentNode_dependencyCompleted ::
  "graph \<Rightarrow> cannoli_object \<Rightarrow> cannoli_object \<Rightarrow> error + call" where
  "ContentNode_dependencyCompleted g this dep =
     (case loggingOrChatResponse g dep of
        Inl e \<Rightarrow> Inl e
      | Inr b \<Rightarrow> if b then Inr CallExecute else CannoliNode_dependencyCompleted g this)"

text \<open>\<open>FloatingNode.dependencyCompleted\<close>: \<open>return\<close>.\<close>

definition FloatingNode_dependencyCompleted :: "graph \<Rightarrow> cannoli_object \<Rightarrow> error + call" where
  "FloatingNode_dependencyCompleted g this = Inr NoCall"

text \<open>
  \<open>this.dependencyCompleted(dependency)\<close>: the method of the class of \<open>this\<close>. The
  classes that do not override it inherit it: the edges from \<open>CannoliEdge\<close>, the groups
  from \<open>CannoliGroup\<close>, the call nodes from \<open>CannoliNode\<close>, the reference, HTTP and
  formatter nodes from \<open>ContentNode\<close>. \<open>ChatResponseEdge\<close> and \<open>ForEachGroup\<close>, whose
  declarations are not among the sources, are taken to inherit it as well.
\<close>

definition dependencyCompleted ::
  "graph \<Rightarrow> cannoli_object \<Rightarrow> cannoli_object \<Rightarrow> error + call" where
  "dependencyCompleted g this dep =
     (if instanceof (cls this) LoggingEdge then LoggingEdge_dependencyCompleted g this
      else if instanceof (cls this) CannoliEdge then CannoliEdge_dependencyCompleted g this
      else if instanceof (cls this) CannoliGroup then CannoliGroup_dependencyCompleted g this
      else if instanceof (cls this) FloatingNode then FloatingNode_dependencyCompleted g this
      else if instanceof (cls this) ContentNode then ContentNode_dependencyCompleted g this dep
      else CannoliNode_dependencyCompleted g this)"

section \<open>Edges: \<open>models/edge.ts\<close>\<close>

subsection \<open>Rendering values\<close>

text \<open>The decimal digits of a natural number and of an integer, as a template prints them.\<close>

fun digits_of_nat :: "nat \<Rightarrow> string" where
  "digits_of_nat n =
     (if n < 10 then [char_of (48 + n)]
      else digits_of_nat (n div 10) @ [char_of (48 + n mod 10)])"

declare digits_of_nat.simps [simp del]

definition string_of_int :: "int \<Rightarrow> string" where
  "string_of_int i = (if i < 0 then ''-'' @ digits_of_nat (nat (- i)) else digits_of_nat (nat i))"

text \<open>
  \<open>`${value}`\<close> for a value of a request: an array prints its elements separated by
  commas, \<open>null\<close> elements as nothing, and an object prints as \<open>[object Object]\<close>. A
  number of the model is an integer and prints all its digits, as JavaScript does below
  \<open>10^21\<close>.
\<close>

fun intersperse :: "string \<Rightarrow> string list \<Rightarrow> string" where
  "intersperse sep [] = []"
| "intersperse sep [x] = x"
| "intersperse sep (x # y # ys) = x @ sep @ intersperse sep (y # ys)"

fun js_toString :: "json \<Rightarrow> string" where
  "js_toString JNull = ''null''"
| "js_toString (JBool b) = (if b then ''true'' else ''false'')"
| "js_toString (JNumber n) = string_of_int n"
| "js_toString (JString s) = s"
| "js_toString (JArray xs) =
     intersperse '','' (map (\<lambda>x. if x = JNull then [] else js_toString x) xs)"
| "js_toString (JObject kvs) = ''[object Object]''"

text \<open>\<open>c.toUpperCase()\<close> on the ASCII letters.\<close>

definition toUpperCase_char :: "char \<Rightarrow> char" where
  "toUpperCase_char c =
     (if 97 \<le> (of_char c :: nat) \<and> (of_char c :: nat) \<le> 122
      then char_of ((of_char c :: nat) - 32) else c)"

definition newline :: string where
  "newline = [CHR 0x0A]"

subsection \<open>Requests\<close>

text \<open>
  A \<open>CreateChatCompletionRequest\<close>: its \<open>messages\<close>, which the sources test for
  presence, and its other properties in the order in which \<open>for ... in\<close> enumerates them.
\<close>

record request =
  req_messages :: "message list option"
  req_fields :: "(string \<times> json) list"

subsection \<open>The logging edge\<close>

text \<open>
  \<open>getConfigString\<close>: every property but \<open>messages\<close> whose value is truthy, as
  \<open>key: value\<close> and a line feed.
\<close>

fun getConfigString_loop :: "(string \<times> json) list \<Rightarrow> string" where
  "getConfigString_loop [] = []"
| "getConfigString_loop ((key, v) # rest) =
     (if key \<noteq> ''messages'' \<and> truthy v
      then key @ '': '' @ js_toString v @ newline @ getConfigString_loop rest
      else getConfigString_loop rest)"

definition getConfigString :: "request \<Rightarrow> string" where
  "getConfigString r = getConfigString_loop (req_fields r)"

text \<open>
  \<open>getLoopNumbers\<close> and \<open>getForEachVersionNumbers\<close>: the \<open>currentLoop\<close> of the groups of
  the given class among \<open>crossingOutGroups\<close>, reversed. A number may be \<open>undefined\<close>.
\<close>

fun currentLoops_of :: "cannoli_class \<Rightarrow> graph \<Rightarrow> string list \<Rightarrow> int option list" where
  "currentLoops_of c g [] = []"
| "currentLoops_of c g (grp # rest) =
     (case g grp of
        None \<Rightarrow> currentLoops_of c g rest
      | Some groupObject \<Rightarrow>
          if instanceof (cls groupObject) c
          then currentLoop groupObject # currentLoops_of c g rest
          else currentLoops_of c g rest)"

definition getLoopNumbers :: "graph \<Rightarrow> cannoli_object \<Rightarrow> int option list" where
  "getLoopNumbers g this = rev (currentLoops_of RepeatGroup g (crossingOutGroups this))"

definition getForEachVersionNumbers :: "graph \<Rightarrow> cannoli_object \<Rightarrow> int option list" where
  "getForEachVersionNumbers g this = rev (currentLoops_of ForEachGroup g (crossingOutGroups this))"

text \<open>
  \<open>formatLoopHeader\<close> prints \<open>loopNumber + 1\<close> and a dot for each number, and
  \<open>formatVersionHeader\<close> the number itself; \<open>slice(0, -1)\<close> drops the last character.
  \<open>undefined + 1\<close> prints as \<open>NaN\<close>.
\<close>

definition formatLoopHeader :: "int option list \<Rightarrow> string" where
  "formatLoopHeader loopNumbers =
     butlast (''# Loop '' @
        concat (map (\<lambda>n. (case n of None \<Rightarrow> ''NaN'' | Some i \<Rightarrow> string_of_int (i + 1)) @ ''.'')
                    loopNumbers))"

definition formatVersionHeader :: "int option list \<Rightarrow> string" where
  "formatVersionHeader versionNumbers =
     butlast (''# Version '' @
        concat (map (\<lambda>n. (case n of None \<Rightarrow> ''undefined'' | Some i \<Rightarrow> string_of_int i) @ ''.'')
                    versionNumbers))"

text \<open>\<open>formatInteractionHeaders\<close>.\<close>

definition formatInteractionHeader :: "message \<Rightarrow> string" where
  "formatInteractionHeader m =
     (let content' =
            (case function_call m of
               Some (name, arguments) \<Rightarrow>
                 ''Function Call: **'' @ name @ ''**'' @ newline @ ''Arguments:'' @ newline @
                 replicate 3 (CHR 0x60) @ ''json'' @ newline @ arguments @ newline @
                 replicate 3 (CHR 0x60)
             | None \<Rightarrow> (case msg_content m of None \<Rightarrow> ''undefined'' | Some c \<Rightarrow> c))
      in ''#### <u>'' @ map toUpperCase_char (take 1 (role m)) @ drop 1 (role m) @ ''</u>:'' @
         newline @ content' @ newline)"

definition formatInteractionHeaders :: "message list \<Rightarrow> string" where
  "formatInteractionHeaders ms = trim (concat (map formatInteractionHeader ms))"

text \<open>
  \<open>LoggingEdge.load\<close>. The \<open>content\<close> argument is not read; without a request the
  method throws.
\<close>

definition LoggingEdge_load ::
  "graph \<Rightarrow> cannoli_object \<Rightarrow> edge_content option \<Rightarrow> request option \<Rightarrow> error + cannoli_object"
  where
  "LoggingEdge_load g this content' req =
     (case req of
        None \<Rightarrow>
          Inl (Error ''Logging edge was loaded without a request, this should never happen'')
      | Some r \<Rightarrow>
          let configString = getConfigString r;
              messages' = (case req_messages r of Some ms \<Rightarrow> ms | None \<Rightarrow> []);
              repeatLoopNumbers = getLoopNumbers g this;
              loopHeader = formatLoopHeader repeatLoopNumbers;
              forEachVersionNumbers = getForEachVersionNumbers g this;
              versionHeader = formatVersionHeader forEachVersionNumbers;
              logs0 = (if length repeatLoopNumbers > 0 then loopHeader @ newline else []);
              logs1 = (if length forEachVersionNumbers > 0
                       then logs0 @ versionHeader @ newline else logs0);
              logs2 = logs1 @ formatInteractionHeaders messages';
              logs = logs2 @ newline @ ''#### Config'' @ newline @ configString @ newline
          in Inr (this\<lparr>content :=
                    Some (Text (case content this of
                                  None \<Rightarrow> logs
                                | Some (Text c) \<Rightarrow> c @ newline @ logs
                                | Some (Dict d) \<Rightarrow> ''[object Object]'' @ newline @ logs))\<rparr>))"

subsection \<open>The message-format converter edge\<close>

text \<open>
  \<open>s.replace(pat, rep)\<close> with a string pattern and a replacement without \<open>$\<close>: the
  first occurrence of \<open>pat\<close> is replaced. \<open>split_at_first\<close> gives the text before and
  the text after that occurrence.
\<close>

fun split_at_first :: "string \<Rightarrow> string \<Rightarrow> (string \<times> string) option" where
  "split_at_first pat [] = (if pat = [] then Some ([], []) else None)"
| "split_at_first pat (c # cs) =
     (if startsWith (c # cs) pat then Some ([], drop (length pat) (c # cs))
      else (case split_at_first pat cs of
              None \<Rightarrow> None
            | Some (pre, post) \<Rightarrow> Some (c # pre, post)))"

definition replace_first :: "string \<Rightarrow> string \<Rightarrow> string \<Rightarrow> string" where
  "replace_first s pat rep =
     (case split_at_first pat s of
        None \<Rightarrow> s
      | Some (pre, post) \<Rightarrow> pre @ rep @ post)"

text \<open>The pattern that \<open>stringToArray\<close> makes from the format.\<close>

definition rolePattern :: "string \<Rightarrow> string" where
  "rolePattern format =
     trim (replace_first (replace_first format ''{{role}}'' ''(system|user|assistant)'')
             ''{{content}}'' [])"

text \<open>
  \<open>new RegExp(rolePattern, "g")\<close>. The model interprets the patterns in which the group
  \<open>(system|user|assistant)\<close> stands between two texts without any character that is
  special in a regular expression: such a pattern matches the first text, one of the
  three roles, and the second text, literally. For any other pattern \<open>compile\<close> answers
  \<open>None\<close> and the model says nothing.
\<close>

datatype regex = RoleRegex string string

definition regex_special :: "char \<Rightarrow> bool" where
  "regex_special c = (c \<in> set (CHR 0x5C # ''^$.|?*+()[]{}''))"

definition compile :: "string \<Rightarrow> regex option" where
  "compile pattern =
     (case split_at_first ''(system|user|assistant)'' pattern of
        None \<Rightarrow> None
      | Some (pre, post) \<Rightarrow>
          if list_all (\<lambda>c. \<not> regex_special c) pre \<and> list_all (\<lambda>c. \<not> regex_special c) post
          then Some (RoleRegex pre post) else None)"

text \<open>
  A match at the start of a text: the role captured and the length of the match. The
  alternatives are tried in their order.
\<close>

fun match_roles :: "string \<Rightarrow> string \<Rightarrow> string list \<Rightarrow> string \<Rightarrow> (string \<times> nat) option" where
  "match_roles pre post [] s = None"
| "match_roles pre post (r # rs) s =
     (if startsWith s (pre @ r @ post) then Some (r, length (pre @ r @ post))
      else match_roles pre post rs s)"

fun match_at :: "regex \<Rightarrow> string \<Rightarrow> (string \<times> nat) option" where
  "match_at (RoleRegex pre post) s =
     match_roles pre post [''system'', ''user'', ''assistant''] s"

text \<open>
  \<open>regex.exec(str)\<close> with \<open>regex.lastIndex = i\<close>: the leftmost match at or after \<open>i\<close>,
  as its index, the role captured and the new \<open>lastIndex\<close> (the end of the match).
\<close>

fun search :: "regex \<Rightarrow> string \<Rightarrow> nat \<Rightarrow> (nat \<times> string \<times> nat) option" where
  "search rx [] i =
     (case match_at rx [] of None \<Rightarrow> None | Some (r, n) \<Rightarrow> Some (i, r, i + n))"
| "search rx (c # cs) i =
     (case match_at rx (c # cs) of
        None \<Rightarrow> search rx cs (Suc i)
      | Some (r, n) \<Rightarrow> Some (i, r, i + n))"

definition regex_exec :: "regex \<Rightarrow> string \<Rightarrow> nat \<Rightarrow> (nat \<times> string \<times> nat) option" where
  "regex_exec rx str i = (if i > length str then None else search rx (drop i str) i)"

text \<open>
  The \<open>while\<close> loop of \<open>stringToArray\<close>, from the state \<open>regex.lastIndex = pos\<close>, with
  the messages pushed so far and the variable \<open>lastIndex\<close>. A match that does not move
  \<open>regex.lastIndex\<close> forward would keep the loop of the source running for ever: the model
  answers \<open>None\<close> there.
\<close>

function stringToArray_loop ::
  "regex \<Rightarrow> string \<Rightarrow> nat \<Rightarrow> message list \<Rightarrow> nat \<Rightarrow> (message list \<times> nat) option" where
  "stringToArray_loop rx str pos msgs lastIndex =
     (case regex_exec rx str pos of
        None \<Rightarrow> Some (msgs, lastIndex)
      | Some (idx, role', start) \<Rightarrow>
          if pos < start \<and> start \<le> length str then
            (let end' = (case regex_exec rx str start of
                           Some (nextIndex, r, e) \<Rightarrow> nextIndex
                         | None \<Rightarrow> length str);
                 content' = trim (substring str start end')
             in stringToArray_loop rx str start
                  (msgs @ [\<lparr>role = role', msg_content = Some content', function_call = None\<rparr>])
                  end')
          else None)"
  by pat_completeness auto
termination
  by (relation "measure (\<lambda>(rx, str, pos, msgs, lastIndex). Suc (length str) - pos)") auto

declare stringToArray_loop.simps [simp del]

text \<open>\<open>ChatConverterEdge.stringToArray\<close>.\<close>

definition stringToArray :: "string \<Rightarrow> string \<Rightarrow> message list option" where
  "stringToArray str format =
     (case compile (rolePattern format) of
        None \<Rightarrow> None
      | Some rx \<Rightarrow>
          (case stringToArray_loop rx str 0 [] 0 of
             None \<Rightarrow> None
           | Some (msgs, lastIndex) \<Rightarrow>
               if length msgs = 0
               then Some [\<lparr>role = ''user'', msg_content = Some (trim str), function_call = None\<rparr>]
               else if int lastIndex < int (length str) - 1
               then Some (msgs @ [\<lparr>role = ''user'',
                                   msg_content = Some (trim (substring str lastIndex (length str))),
                                   function_call = None\<rparr>])
               else Some msgs))"

text \<open>
  \<open>s.replace(pat, rep)\<close> with a string pattern and any replacement: in the replacement,
  \<open>$$\<close> stands for a dollar sign, \<open>$&\<close> for the text matched, \<open>$`\<close> for the text before
  it and \<open>$'\<close> for the text after it; a string pattern captures nothing, so that every
  other dollar sign stands for itself.
\<close>

fun substitution :: "string \<Rightarrow> string \<Rightarrow> string \<Rightarrow> string \<Rightarrow> string" where
  "substitution matched pre post [] = []"
| "substitution matched pre post [c] = [c]"
| "substitution matched pre post (c # d # cs) =
     (if c = CHR 0x24 \<and> d = CHR 0x24 then CHR 0x24 # substitution matched pre post cs
      else if c = CHR 0x24 \<and> d = CHR 0x26 then matched @ substitution matched pre post cs
      else if c = CHR 0x24 \<and> d = CHR 0x60 then pre @ substitution matched pre post cs
      else if c = CHR 0x24 \<and> d = CHR 0x27 then post @ substitution matched pre post cs
      else c # substitution matched pre post (d # cs))"

definition replace :: "string \<Rightarrow> string \<Rightarrow> string \<Rightarrow> string" where
  "replace s pat rep =
     (case split_at_first pat s of
        None \<Rightarrow> s
      | Some (pre, post) \<Rightarrow> pre @ substitution pat pre post rep @ post)"

text \<open>
  \<open>ChatConverterEdge.arrayToString\<close>, with \<open>showSystemMessages\<close> at its default. The loop
  carries \<open>messageStr\<close> and \<open>isFirstMessage\<close>.
\<close>

fun arrayToString_loop :: "string \<Rightarrow> message list \<Rightarrow> string \<Rightarrow> bool \<Rightarrow> string" where
  "arrayToString_loop format [] messageStr isFirstMessage = messageStr"
| "arrayToString_loop format (m # ms) messageStr isFirstMessage =
     (if role m = ''system'' then arrayToString_loop format ms messageStr isFirstMessage
      else
        (let formattedMessage =
               replace (replace format ''{{role}}'' (role m)) ''{{content}}''
                 (case msg_content m of Some c \<Rightarrow> c | None \<Rightarrow> [])
         in arrayToString_loop format ms
              ((if \<not> isFirstMessage then messageStr @ newline @ newline else messageStr) @
               formattedMessage)
              False))"

definition arrayToString :: "message list \<Rightarrow> string \<Rightarrow> string" where
  "arrayToString ms format =
     (let messageStr = arrayToString_loop format ms [] True;
          userTemplate = replace (replace format ''{{role}}'' ''user'') ''{{content}}'' [];
          completeStr = (if messageStr \<noteq> [] then messageStr @ newline @ newline @ userTemplate
                         else userTemplate)
      in trimStart completeStr)"

subsection \<open>Loading an edge\<close>

text \<open>
  The methods \<open>load({ content, request })\<close> of the edge classes. The content that
  \<open>loadOutgoingEdges\<close> passes is a string, and the empty string is the falsy one.
  \<open>CannoliEdge.load\<close>:
\<close>

definition CannoliEdge_load ::
  "cannoli_object \<Rightarrow> string \<Rightarrow> request option \<Rightarrow> cannoli_object" where
  "CannoliEdge_load this content' req =
     (let this1 = this\<lparr>content := (if content' \<noteq> [] then Some (Text content') else None)\<rparr>
      in if addMessages this1
         then this1\<lparr>messages := (case req of None \<Rightarrow> None | Some r \<Rightarrow> req_messages r)\<rparr>
         else this1)"

text \<open>
  \<open>ChatConverterEdge.load\<close>: the messages of the request as a text, or else the content
  as messages. An empty format is falsy, and so is a request without messages.
\<close>

definition ChatConverterEdge_load ::
  "js_env \<Rightarrow> cannoli_object \<Rightarrow> string \<Rightarrow> request option \<Rightarrow> error + cannoli_object" where
  "ChatConverterEdge_load env this content' req =
     (let format = chatFormatString env;
          request_messages = (case req of None \<Rightarrow> None | Some r \<Rightarrow> req_messages r)
      in if request_messages \<noteq> None \<and> format \<noteq> []
         then Inr (this\<lparr>content := Some (Text (arrayToString (the request_messages) format)),
                        messages := Some []\<rparr>)
         else if content' \<noteq> [] \<and> format \<noteq> []
         then (case (case stringToArray content' format of
                       Some ms \<Rightarrow> Inr ms
                     | None \<Rightarrow> stringToArray_other env content' format) of
                 Inl e \<Rightarrow> Inl e
               | Inr ms \<Rightarrow> Inr (this\<lparr>content := Some (Text []), messages := Some ms\<rparr>))
         else Inr (this\<lparr>content := Some (Text []), messages := Some []\<rparr>))"

text \<open>\<open>SystemMessageEdge.load\<close>.\<close>

definition SystemMessageEdge_load ::
  "cannoli_object \<Rightarrow> string \<Rightarrow> request option \<Rightarrow> cannoli_object" where
  "SystemMessageEdge_load this content' req =
     (if content' \<noteq> []
      then this\<lparr>messages :=
             Some [\<lparr>role = ''system'', msg_content = Some content', function_call = None\<rparr>]\<rparr>
      else this)"

text \<open>
  \<open>edgeObject.load(...)\<close> on an instance of \<open>CannoliEdge\<close>: the method of the class of
  the object; \<open>ChatResponseEdge\<close>, whose declaration is not among the sources, is taken to
  inherit its method. \<open>LoggingEdge.load\<close> throws when there is no request.
\<close>

definition Edge_load ::
  "js_env \<Rightarrow> graph \<Rightarrow> cannoli_object \<Rightarrow> string \<Rightarrow> request option \<Rightarrow> error + cannoli_object"
  where
  "Edge_load env g this content' req =
     (if instanceof (cls this) LoggingEdge
      then LoggingEdge_load g this (Some (Text content')) req
      else if instanceof (cls this) ChatConverterEdge
      then ChatConverterEdge_load env this content' req
      else if instanceof (cls this) SystemMessageEdge
      then Inr (SystemMessageEdge_load this content' req)
      else Inr (CannoliEdge_load this content' req))"

section \<open>Nodes: \<open>models/node.ts\<close>\<close>

text \<open>
  The node methods of \<open>models/node.ts\<close> act on the outgoing edges through the methods
  \<open>load\<close> and \<open>reject\<close> of the edge objects. The model of a node method returns the
  graph that these calls leave, and the sequence of the calls, each with the id of its
  receiver, in the order in which the method makes them; \<open>this.error(message)\<close> is
  recorded as a call. A call that throws ends the method: the model then returns the
  exception alone. In \<open>models/node.ts\<close> an entry of \<open>outgoingEdges\<close> is the id of the edge:
  the first component of the pair.
\<close>

datatype method_call = Load string "request option" | Reject | ErrorCall string

type_synonym trace = "(string \<times> method_call) list"

text \<open>
  Modelled from the spec: \<open>reject()\<close> is defined in \<open>models/object.ts\<close>, which is not
  among the sources; the object becomes Rejected, and the notification of its listeners
  is outside the model.
\<close>

definition CannoliObject_reject :: "cannoli_object \<Rightarrow> cannoli_object" where
  "CannoliObject_reject ob = ob\<lparr>status := Rejected\<rparr>"

subsection \<open>Lists\<close>

text \<open>\<open>s.split("\n")\<close>, for any separating character.\<close>

fun split_on :: "char \<Rightarrow> string \<Rightarrow> string list" where
  "split_on d [] = [[]]"
| "split_on d (c # cs) =
     (if c = d then [] # split_on d cs
      else (case split_on d cs of
              [] \<Rightarrow> [[c]]
            | l # ls \<Rightarrow> (c # l) # ls))"

definition is_digit :: "char \<Rightarrow> bool" where
  "is_digit c = (c \<in> set ''0123456789'')"

text \<open>
  The length of the match of \<open>/^\d+\. /\<close> at the start of a line: digits, a dot and a
  space.
\<close>

definition numbered_prefix :: "string \<Rightarrow> nat option" where
  "numbered_prefix line =
     (let ds = takeWhile is_digit line
      in if ds \<noteq> [] \<and> startsWith (drop (length ds) line) ''. ''
         then Some (length ds + 2) else None)"

text \<open>
  \<open>getListArrayFromContent\<close>: the elements of a JSON array, the strings as they are and
  the others through \<open>JSON.stringify\<close>; otherwise the items of a markdown list.
\<close>

definition getListArrayFromContent :: "js_env \<Rightarrow> string \<Rightarrow> string list" where
  "getListArrayFromContent env content' =
     (case JSON_parse env content' of
        Some (JArray jsonArray) \<Rightarrow>
          map (\<lambda>item. case item of JString s \<Rightarrow> s | _ \<Rightarrow> JSON_stringify env item) jsonArray
      | _ \<Rightarrow>
          map (\<lambda>item. if startsWith item ''- '' then substring item 2 (length item)
                       else (case numbered_prefix item of
                               Some n \<Rightarrow> drop n item
                             | None \<Rightarrow> item))
            (filter (\<lambda>line. startsWith line ''- '' \<or> numbered_prefix line \<noteq> None)
               (split_on (CHR 0x0A) content')))"

subsection \<open>\<open>CannoliNode.loadOutgoingEdges\<close>\<close>

text \<open>
  \<open>try { contentObject = JSON.parse(content) } catch (e) {}\<close> followed by
  \<open>if (contentObject)\<close>: the parsed value when there is one and it is truthy.
\<close>

definition parsed_truthy :: "js_env \<Rightarrow> string \<Rightarrow> json option" where
  "parsed_truthy env content' =
     (case JSON_parse env content' of
        None \<Rightarrow> None
      | Some v \<Rightarrow> if truthy v then Some v else None)"

text \<open>
  \<open>this.outgoingEdges.find((edge) => this.graph[edge].type === EdgeType.Item)\<close>; reading
  the type of an edge that is not in the graph raises. \<open>some\<close> is \<open>find\<close> finding one.
\<close>

fun find_Item :: "graph \<Rightarrow> string list \<Rightarrow> error + string option" where
  "find_Item g [] = Inr None"
| "find_Item g (edge # rest) =
     (case g edge of
        None \<Rightarrow> Inl TypeError
      | Some eo \<Rightarrow> if type' eo = OfEdge EdgeType_Item then Inr (Some edge) else find_Item g rest)"

text \<open>The list items, computed before the loop.\<close>

definition listItems_of ::
  "js_env \<Rightarrow> graph \<Rightarrow> cannoli_object \<Rightarrow> string \<Rightarrow> error + string list" where
  "listItems_of env g this content' =
     (if type' this = OfContentNode ContentNodeType_Http then
        (case find_Item g (map fst (outgoingEdges this)) of
           Inl e \<Rightarrow> Inl e
         | Inr None \<Rightarrow> Inr (getListArrayFromContent env content')
         | Inr (Some edge) \<Rightarrow>
             (case g edge of
                None \<Rightarrow> Inl TypeError
              | Some eo \<Rightarrow>
                  (case parsed_truthy env content' of
                     Some contentObject \<Rightarrow>
                       Inr (getListArrayFromContent env
                              (JSON_stringify_indented env
                                 (pathOr env contentObject (stringToPath env (text' eo))
                                    (JString content'))))
                   | None \<Rightarrow> Inr (getListArrayFromContent env content'))))
      else Inr (getListArrayFromContent env content'))"

text \<open>\<open>contentToLoad\<close> for one edge: for an HTTP node, the value at the path of the edge.\<close>

definition contentToLoad ::
  "js_env \<Rightarrow> graph \<Rightarrow> cannoli_object \<Rightarrow> string \<Rightarrow> string \<Rightarrow> error + string" where
  "contentToLoad env g this content' edge =
     (if type' this = OfContentNode ContentNodeType_Http then
        (case g edge of
           None \<Rightarrow> Inl TypeError
         | Some edgeObject \<Rightarrow>
             (case parsed_truthy env content' of
                Some contentObject \<Rightarrow>
                  (case pathOr env contentObject (stringToPath env (text' edgeObject))
                          (JString content') of
                     JString s \<Rightarrow> Inr s
                   | v \<Rightarrow> Inr (JSON_stringify_indented env v))
              | None \<Rightarrow> Inr content'))
      else Inr content')"

text \<open>
  The loop over \<open>this.outgoingEdges\<close>, with \<open>itemIndex\<close>. An id that is not in the graph
  is an instance of no class, and is passed over. An item that is \<open>undefined\<close> or the
  empty string rejects the edge and leaves \<open>itemIndex\<close> as it is. There is no \<open>try\<close>
  around \<open>load\<close>: when it throws, the loop ends with the exception.
\<close>

fun loadOutgoingEdges_loop ::
  "js_env \<Rightarrow> cannoli_object \<Rightarrow> string \<Rightarrow> request option \<Rightarrow> string list \<Rightarrow>
   string list \<Rightarrow> nat \<Rightarrow> graph \<Rightarrow> error + graph \<times> trace" where
  "loadOutgoingEdges_loop env this content' req listItems [] itemIndex g = Inr (g, [])"
| "loadOutgoingEdges_loop env this content' req listItems (edge # rest) itemIndex g =
     (case contentToLoad env g this content' edge of
        Inl e \<Rightarrow> Inl e
      | Inr toLoad \<Rightarrow>
          (case g edge of
             None \<Rightarrow> loadOutgoingEdges_loop env this content' req listItems rest itemIndex g
           | Some edgeObject \<Rightarrow>
               if instanceof (cls edgeObject) CannoliEdge \<and>
                  \<not> instanceof (cls edgeObject) ChatResponseEdge \<and>
                  type' edgeObject \<noteq> OfEdge EdgeType_Item
               then
                 (case Edge_load env g edgeObject toLoad req of
                    Inl e \<Rightarrow> Inl e
                  | Inr loaded \<Rightarrow>
                      (case loadOutgoingEdges_loop env this content' req listItems rest
                              itemIndex (g(edge \<mapsto> loaded)) of
                         Inl e \<Rightarrow> Inl e
                       | Inr (g', t) \<Rightarrow> Inr (g', (edge, Load toLoad req) # t)))
               else if instanceof (cls edgeObject) CannoliEdge \<and>
                       type' edgeObject = OfEdge EdgeType_Item
               then
                 (if itemIndex < length listItems \<and> listItems ! itemIndex \<noteq> []
                  then
                    (case Edge_load env g edgeObject (listItems ! itemIndex) req of
                       Inl e \<Rightarrow> Inl e
                     | Inr loaded \<Rightarrow>
                         (case loadOutgoingEdges_loop env this content' req listItems rest
                                 (itemIndex + 1) (g(edge \<mapsto> loaded)) of
                            Inl e \<Rightarrow> Inl e
                          | Inr (g', t) \<Rightarrow>
                              Inr (g', (edge, Load (listItems ! itemIndex) req) # t)))
                  else
                    (case loadOutgoingEdges_loop env this content' req listItems rest
                            itemIndex (g(edge \<mapsto> CannoliObject_reject edgeObject)) of
                       Inl e \<Rightarrow> Inl e
                     | Inr (g', t) \<Rightarrow> Inr (g', (edge, Reject) # t)))
               else loadOutgoingEdges_loop env this content' req listItems rest itemIndex g))"

definition CannoliNode_loadOutgoingEdges ::
  "js_env \<Rightarrow> graph \<Rightarrow> cannoli_object \<Rightarrow> string \<Rightarrow> request option \<Rightarrow>
   error + graph \<times> trace" where
  "CannoliNode_loadOutgoingEdges env g this content' req =
     (case listItems_of env g this content' of
        Inl e \<Rightarrow> Inl e
      | Inr listItems \<Rightarrow>
          loadOutgoingEdges_loop env this content' req listItems
            (map fst (outgoingEdges this)) 0 g)"

subsection \<open>The choice node\<close>

text \<open>
  The property of a parsed object; \<open>JSON.parse\<close> keeps the last of several equal keys.
\<close>

definition get_property :: "(string \<times> json) list \<Rightarrow> string \<Rightarrow> json option" where
  "get_property kvs k = map_of (rev kvs) k"

text \<open>
  \<open>rejectUnselectedOptions(choice)\<close>; \<open>choice\<close> is any value or \<open>undefined\<close>, and
  \<open>branchEdge.text !== choice\<close> holds unless it is the string \<open>text\<close>. Reading the type
  of an edge that is not in the graph raises.
\<close>

fun rejectUnselectedOptions ::
  "string list \<Rightarrow> json option \<Rightarrow> graph \<Rightarrow> error + graph \<times> trace" where
  "rejectUnselectedOptions [] choice g = Inr (g, [])"
| "rejectUnselectedOptions (edge # rest) choice g =
     (case g edge of
        None \<Rightarrow> Inl TypeError
      | Some edgeObject \<Rightarrow>
          if type' edgeObject = OfEdge EdgeType_Choice \<and>
             choice \<noteq> Some (JString (text' edgeObject))
          then (case rejectUnselectedOptions rest choice
                       (g(edge \<mapsto> CannoliObject_reject edgeObject)) of
                  Inl e \<Rightarrow> Inl e
                | Inr (g', t) \<Rightarrow> Inr (g', (edge, Reject) # t))
          else rejectUnselectedOptions rest choice g)"

text \<open>
  \<open>ChooseNode.loadOutgoingEdges\<close>. \<open>"function_call" in lastMessage\<close> raises when there is
  no message; a function call without arguments is reported through \<open>this.error\<close>, whose
  body is not among the sources and is recorded as a call.
\<close>

definition ChooseNode_loadOutgoingEdges ::
  "js_env \<Rightarrow> graph \<Rightarrow> cannoli_object \<Rightarrow> string \<Rightarrow> request \<Rightarrow> error + graph \<times> trace" where
  "ChooseNode_loadOutgoingEdges env g this content' req =
     (case req_messages req of
        None \<Rightarrow> Inl TypeError
      | Some msgs \<Rightarrow>
          if msgs = [] then Inl TypeError
          else
            (let choiceFunctionArgs =
                   (case function_call (last msgs) of
                      Some (name, arguments) \<Rightarrow> arguments
                    | None \<Rightarrow> [])
             in if choiceFunctionArgs = []
                then Inr (g, [(id' this, ErrorCall ''Choice function call has no arguments.'')])
                else
                  (case JSON_parse env choiceFunctionArgs of
                     None \<Rightarrow> Inl SyntaxError
                   | Some JNull \<Rightarrow> Inl TypeError
                   | Some parsedVariable \<Rightarrow>
                       (case rejectUnselectedOptions (map fst (outgoingEdges this))
                               (case parsedVariable of
                                  JObject kvs \<Rightarrow> get_property kvs ''choice''
                                | _ \<Rightarrow> None) g of
                          Inl e \<Rightarrow> Inl e
                        | Inr (g1, t1) \<Rightarrow>
                            (case CannoliNode_loadOutgoingEdges env g1 this choiceFunctionArgs
                                    (Some req) of
                               Inl e \<Rightarrow> Inl e
                             | Inr (g2, t2) \<Rightarrow> Inr (g2, t1 @ t2))))))"

section \<open>Typing a group: \<open>models/group.ts\<close>\<close>

text \<open>
  \<open>parseInt(label)\<close> without a radix: leading white space, an optional sign, an optional
  \<open>0x\<close> for base sixteen, then the longest run of digits; \<open>NaN\<close> (here \<open>None\<close>) when
  there is no digit. The value is the exact integer: JavaScript rounds it beyond
  \<open>2^53\<close>.
\<close>

definition digit_value :: "char \<Rightarrow> nat" where
  "digit_value c =
     (let n = (of_char c :: nat)
      in if 48 \<le> n \<and> n \<le> 57 then n - 48
         else if 97 \<le> n \<and> n \<le> 122 then n - 87
         else if 65 \<le> n \<and> n \<le> 90 then n - 55
         else 36)"

definition parseInt :: "string \<Rightarrow> int option" where
  "parseInt s =
     (let s1 = dropWhile js_whitespace s;
          neg = startsWith s1 ''-'';
          s2 = (if startsWith s1 ''-'' \<or> startsWith s1 ''+'' then drop 1 s1 else s1);
          hex = (startsWith s2 ''0x'' \<or> startsWith s2 ''0X'');
          radix = (if hex then 16 else 10);
          s3 = (if hex then drop 2 s2 else s2);
          ds = takeWhile (\<lambda>c. digit_value c < radix) s3
      in if ds = [] then None
         else Some ((if neg then - 1 else 1) *
                    int (foldl (\<lambda>a c. a * radix + digit_value c) 0 ds)))"

text \<open>
  The indicated types. \<open>IndicatedNodeType\<close> and \<open>IndicatedEdgeType\<close> are declared in
  \<open>models/object.ts\<close>; the sources name one of their members.
\<close>

datatype IndicatedGroupType =
    IndicatedGroupType_Repeat | IndicatedGroupType_List | IndicatedGroupType_Basic
  | IndicatedGroupType_NonLogic

datatype IndicatedNodeType = IndicatedNodeType_NonLogic | IndicatedNodeType_other string

text \<open>
  What \<open>getIndicatedType\<close> returns: an indicated type, or, from a map read at a key that
  the map only inherits, the value of that property of \<open>Object.prototype\<close>, which is no
  indicated type and is equal to none.
\<close>

datatype indicated_type =
    IndicatedGroup IndicatedGroupType | IndicatedNode IndicatedNodeType | IndicatedEdge string
  | Inherited string

text \<open>
  \<open>GroupPrefixMap\<close> and \<open>GroupColorMap\<close> are object literals, and the test \<open>key in map\<close>
  finds the own keys of the map and the keys that it inherits from \<open>Object.prototype\<close>.
  The key of the first map is one character or \<open>undefined\<close>, and no inherited key is one
  character long or is the text \<open>undefined\<close>: there the own key is the only one found. The
  key of the second map is the colour of the canvas data, any non-empty text.
\<close>

definition GroupPrefixMap :: "string \<rightharpoonup> IndicatedGroupType" where
  "GroupPrefixMap = [''<'' \<mapsto> IndicatedGroupType_List]"

definition GroupColorMap :: "string \<rightharpoonup> IndicatedGroupType" where
  "GroupColorMap = [''5'' \<mapsto> IndicatedGroupType_List]"

text \<open>The names of the properties of \<open>Object.prototype\<close>, which every object inherits.\<close>

definition Object_prototype_keys :: "string list" where
  "Object_prototype_keys =
     [''constructor'', ''__defineGetter__'', ''__defineSetter__'', ''hasOwnProperty'',
      ''__lookupGetter__'', ''__lookupSetter__'', ''isPrototypeOf'', ''propertyIsEnumerable'',
      ''toString'', ''valueOf'', ''__proto__'', ''toLocaleString'']"

text \<open>\<open>color in this.GroupColorMap\<close> and \<open>this.GroupColorMap[color]\<close>.\<close>

definition in_GroupColorMap :: "string \<Rightarrow> bool" where
  "in_GroupColorMap c = (GroupColorMap c \<noteq> None \<or> c \<in> set Object_prototype_keys)"

definition GroupColorMap_get :: "string \<Rightarrow> indicated_type" where
  "GroupColorMap_get c =
     (case GroupColorMap c of Some t \<Rightarrow> IndicatedGroup t | None \<Rightarrow> Inherited c)"

text \<open>\<open>getLabelNumber\<close>; \<open>label[0]\<close> is \<open>take 1 label\<close>, and \<open>undefined\<close> is the empty text.\<close>

definition getLabelNumber :: "cannoli_object \<Rightarrow> int option" where
  "getLabelNumber this =
     (let label = text' this;
          label' = (if take 1 label \<noteq> [] \<and> GroupPrefixMap (take 1 label) \<noteq> None
                    then drop 1 label else label)
      in parseInt label')"

text \<open>
  \<open>getIndicatedType\<close> of a group, with the \<open>every\<close> over its members. The method calls
  itself on the members that are groups; its first argument bounds the depth of these
  calls, and \<open>RangeError\<close> is the exhausted call stack. \<open>getIndicatedType\<close> of the other
  objects is defined in \<open>models/node.ts\<close> of this version, which is not among the sources:
  it is the parameter \<open>other\<close>. A member that is not in the graph raises.
\<close>

fun getIndicatedType ::
    "nat \<Rightarrow> (cannoli_object \<Rightarrow> indicated_type) \<Rightarrow> graph \<Rightarrow> cannoli_object \<Rightarrow>
     error + indicated_type"
  and every_NonLogic ::
    "nat \<Rightarrow> (cannoli_object \<Rightarrow> indicated_type) \<Rightarrow> graph \<Rightarrow> string list \<Rightarrow> error + bool"
  where
  "getIndicatedType 0 other g this = Inl RangeError"
| "getIndicatedType (Suc n) other g this =
     (if take 1 (text' this) \<noteq> [] \<and> GroupPrefixMap (take 1 (text' this)) \<noteq> None
      then Inr (IndicatedGroup (the (GroupPrefixMap (take 1 (text' this)))))
      else if color this \<noteq> None \<and> color this \<noteq> Some [] \<and>
              in_GroupColorMap (the (color this))
      then Inr (GroupColorMap_get (the (color this)))
      else if getLabelNumber this \<noteq> None then Inr (IndicatedGroup IndicatedGroupType_Repeat)
      else (case every_NonLogic n other g (members this) of
              Inl e \<Rightarrow> Inl e
            | Inr b \<Rightarrow> Inr (IndicatedGroup (if b then IndicatedGroupType_NonLogic
                                              else IndicatedGroupType_Basic))))"
| "every_NonLogic n other g [] = Inr True"
| "every_NonLogic n other g (member # rest) =
     (case g member of
        None \<Rightarrow> Inl TypeError
      | Some mo \<Rightarrow>
          (case (if instanceof (cls mo) CannoliGroup
                 then getIndicatedType n other g mo
                 else Inr (other mo)) of
             Inl e \<Rightarrow> Inl e
           | Inr t \<Rightarrow>
               if t = IndicatedNode IndicatedNodeType_NonLogic \<or>
                  t = IndicatedGroup IndicatedGroupType_NonLogic
               then every_NonLogic n other g rest
               else Inr False))"

text \<open>
  \<open>decideType\<close>: an indicated group type is a valid group type, and the \<open>default\<close> of the
  \<open>switch\<close> throws for every other value, an inherited property among them. The message
  holds the value as the template literal prints it: the parameter \<open>shown\<close>, since the
  enumerations are declared in \<open>models/object.ts\<close> and the text of a built-in function is
  left to the implementation.
\<close>

definition decideType ::
  "(indicated_type \<Rightarrow> string) \<Rightarrow> nat \<Rightarrow> (cannoli_object \<Rightarrow> indicated_type) \<Rightarrow> graph \<Rightarrow>
   cannoli_object \<Rightarrow> error + GroupType"
  where
  "decideType shown n other g this =
     (case getIndicatedType n other g this of
        Inl e \<Rightarrow> Inl e
      | Inr indicatedType \<Rightarrow>
          if indicatedType = IndicatedGroup IndicatedGroupType_Repeat then Inr GroupType_Repeat
          else if indicatedType = IndicatedGroup IndicatedGroupType_List then Inr GroupType_List
          else if indicatedType = IndicatedGroup IndicatedGroupType_Basic then Inr GroupType_Basic
          else if indicatedType = IndicatedGroup IndicatedGroupType_NonLogic
          then Inr GroupType_NonLogic
          else Inl (Error (''Error on object '' @ id' this @ '': indicated type '' @
                           shown indicatedType @ '' is not a valid group type.'')))"

text \<open>
  The constructor of \<open>CannoliGroup\<close>. Modelled from the spec: the constructor of
  \<open>CannoliVertex\<close>, in \<open>models/object.ts\<close>, is not among the sources; a new object is
  Pending, has no dependency, and takes the empty list for the edges and groups that are
  not given.
\<close>

definition new_CannoliGroup ::
  "string \<Rightarrow> string \<Rightarrow> string option \<Rightarrow> edge_ref list \<Rightarrow> edge_ref list \<Rightarrow> string list \<Rightarrow>
   string list \<Rightarrow> cannoli_object" where
  "new_CannoliGroup i t c out inc gs ms =
     \<lparr> id' = i, text' = t, status = Pending, kind = Group, cls = CannoliGroup,
       type' = OfOther [], dependencies = [], groups = gs, incomingEdges = inc,
       outgoingEdges = out, color = c, members = ms, maxLoops = 0, currentLoop = None,
       numberOfVersions = 0, copyId = 0, source = [], target = [],
       crossingInGroups = [], crossingOutGroups = [], isReflexive = False,
       addMessages = False, content = None, messages = None \<rparr>"

text \<open>
  \<open>createTyped\<close>: the typed object, or \<open>null\<close> for a group without logic. The basic group
  is built from the id, the text and the canvas data only. The \<open>default\<close> of the \<open>switch\<close>
  is the last case: \<open>decideType\<close> never returns that type.
\<close>

definition createTyped ::
  "(indicated_type \<Rightarrow> string) \<Rightarrow> nat \<Rightarrow> (cannoli_object \<Rightarrow> indicated_type) \<Rightarrow> graph \<Rightarrow>
   cannoli_object \<Rightarrow> error + cannoli_object option" where
  "createTyped shown n other g this =
     (case decideType shown n other g this of
        Inl e \<Rightarrow> Inl e
      | Inr GroupType_Repeat \<Rightarrow>
          (case getLabelNumber this of
             None \<Rightarrow> Inl (Error (''Error on object '' @ id' this @
                                  '': repeat group must have a positive integer label.''))
           | Some labelNumber \<Rightarrow>
               Inr (Some ((new_CannoliGroup (id' this) (text' this) (color this)
                             (outgoingEdges this) (incomingEdges this) (groups this)
                             (members this))
                          \<lparr>cls := RepeatGroup, maxLoops := labelNumber\<rparr>)))
      | Inr GroupType_List \<Rightarrow>
          (case getLabelNumber this of
             None \<Rightarrow> Inl (Error (''Error on object '' @ id' this @
                                  '': list group must have a positive integer label.''))
           | Some labelNumber \<Rightarrow>
               Inr (Some ((new_CannoliGroup (id' this) (text' this) (color this)
                             (outgoingEdges this) (incomingEdges this) (groups this)
                             (members this))
                          \<lparr>cls := ListGroup, numberOfVersions := labelNumber, copyId := 0\<rparr>)))
      | Inr GroupType_Basic \<Rightarrow>
          Inr (Some (new_CannoliGroup (id' this) (text' this) (color this) [] [] [] []))
      | Inr GroupType_NonLogic \<Rightarrow> Inr None
      | Inr GroupType_ForEach \<Rightarrow>
          Inl (Error (''Error on object '' @ id' this @
                      '': type ForEach is not a valid group type.'')))"

section \<open>Examples and auxiliary predicates\<close>

text \<open>An object with every field at its empty value, from which the examples are built.\<close>

definition fixture :: "string \<Rightarrow> CannoliObjectKind \<Rightarrow> cannoli_class \<Rightarrow> cannoli_object" where
  "fixture i k c =
     \<lparr> id' = i, text' = [], status = Pending, kind = k, cls = c, type' = OfOther [],
       dependencies = [], groups = [], incomingEdges = [], outgoingEdges = [],
       color = None, members = [], maxLoops = 0, currentLoop = None,
       numberOfVersions = 0, copyId = 0, source = [], target = [],
       crossingInGroups = [], crossingOutGroups = [], isReflexive = False,
       addMessages = False, content = None, messages = None \<rparr>"

text \<open>
  An environment for the examples: a \<open>JSON.parse\<close> that rejects every text, and a
  chat format whose pattern the model interprets.
\<close>

definition fixture_env :: js_env where
  "fixture_env = \<lparr> JSON_parse = (\<lambda>s. None), JSON_stringify = (\<lambda>v. []),
                    JSON_stringify_indented = (\<lambda>v. []),
                    stringToPath = (\<lambda>s. []), pathOr = (\<lambda>v p d. d),
                    chatFormatString = ''{{role}}: {{content}}'',
                    stringToArray_other = (\<lambda>str format. Inl SyntaxError) \<rparr>"

text \<open>
  Two graphs have the same shape when they hold the same ids and each object has kept
  its outgoing edges and its members. Resetting objects keeps the shape.
\<close>

definition same_shape :: "graph \<Rightarrow> graph \<Rightarrow> bool" where
  "same_shape g g' =
     (\<forall>x. rel_option (\<lambda>a b. outgoingEdges a = outgoingEdges b \<and> members a = members b)
            (g x) (g' x))"

text \<open>
  The members \<open>ms\<close> of the group \<open>gid\<close> can be reset: each is in the graph and is not
  the group itself, and each of its outgoing edges is in the graph and is not the group.
\<close>

definition resettable :: "graph \<Rightarrow> string \<Rightarrow> string list \<Rightarrow> bool" where
  "resettable g gid ms =
     list_all (\<lambda>m. m \<noteq> gid \<and>
        (case g m of
           None \<Rightarrow> False
         | Some mo \<Rightarrow> list_all (\<lambda>e. fst e \<noteq> gid \<and> g (fst e) \<noteq> None) (outgoingEdges mo))) ms"


text \<open>
  A basic group \<open>g\<close> with one incoming edge \<open>e\<close>, already Complete, and one member
  node \<open>n\<close>, before \<open>setMembers\<close> runs.
\<close>

definition C2_graph :: graph where
  "C2_graph = [
     ''g'' \<mapsto> (fixture ''g'' Group CannoliGroup)
                 \<lparr>incomingEdges := [(''e'', False)], dependencies := [DepId ''e'']\<rparr>,
     ''n'' \<mapsto> (fixture ''n'' Node CannoliNode)\<lparr>status := Complete, groups := [''g'']\<rparr>,
     ''e'' \<mapsto> (fixture ''e'' Edge CannoliEdge)\<lparr>status := Complete, target := ''g''\<rparr>]"




text \<open>
  A repeat group with \<open>maxLoops = 2\<close> around one node whose outgoing edge is reflexive
  and carries a payload.
\<close>

definition C3_graph :: graph where
  "C3_graph = [
     ''loop'' \<mapsto> (fixture ''loop'' Group RepeatGroup)
                 \<lparr>status := Executing, members := [''n''], maxLoops := 2, currentLoop := Some 0\<rparr>,
     ''n'' \<mapsto> (fixture ''n'' Node CannoliNode)
                 \<lparr>status := Complete, groups := [''loop''],
                  outgoingEdges := [(''e'', True), (''out'', False)]\<rparr>,
     ''e'' \<mapsto> (fixture ''e'' Edge CannoliEdge)
                 \<lparr>status := Complete, source := ''n'', target := ''n'', isReflexive := True,
                  content := Some (Text ''acc'')\<rparr>,
     ''out'' \<mapsto> (fixture ''out'' Edge CannoliEdge)
                 \<lparr>status := Complete, source := ''n'', content := Some (Text ''x'')\<rparr>]"

text \<open>
  Two alternative edges, one Complete and one Rejected.
\<close>

definition C5_graph :: graph where
  "C5_graph = [
     ''a'' \<mapsto> (fixture ''a'' Edge CannoliEdge)\<lparr>status := Complete\<rparr>,
     ''b'' \<mapsto> (fixture ''b'' Edge CannoliEdge)\<lparr>status := Rejected\<rparr>]"

text \<open>
  A group that depends on either of the two edges.
\<close>

definition C5_group :: cannoli_object where
  "C5_group = (fixture ''grp'' Group CannoliGroup)\<lparr>dependencies := [DepArray [''a'', ''b'']]\<rparr>"

text \<open>
  A loaded edge that is not reflexive.
\<close>

definition C4_plain :: cannoli_object where
  "C4_plain = (fixture ''p'' Edge CannoliEdge)\<lparr>status := Complete, content := Some (Text ''x'')\<rparr>"

text \<open>
  A call node, already Complete, with a logging edge to a content node, both Complete as
  well, and a plain edge that is still Pending.
\<close>

definition C1_graph :: graph where
  "C1_graph = [
     ''src'' \<mapsto> (fixture ''src'' Node CallNode)\<lparr>status := Complete, outgoingEdges := [(''log'', False)]\<rparr>,
     ''log'' \<mapsto> (fixture ''log'' Edge LoggingEdge)
                 \<lparr>status := Complete, type' := OfEdge EdgeType_Logging, source := ''src'',
                  target := ''out'', dependencies := [DepId ''src'']\<rparr>,
     ''out'' \<mapsto> (fixture ''out'' Node ContentNode)
                 \<lparr>status := Complete, incomingEdges := [(''log'', False)],
                  dependencies := [DepId ''log'']\<rparr>,
     ''e'' \<mapsto> (fixture ''e'' Edge CannoliEdge)\<lparr>source := ''src'', dependencies := [DepId ''src'']\<rparr>]"

text \<open>A request with one user message and a model name.\<close>

definition C10_request :: request where
  "C10_request =
     \<lparr> req_messages = Some [\<lparr>role = ''user'', msg_content = Some ''hi'', function_call = None\<rparr>],
       req_fields = [(''model'', JString ''gpt''), (''temperature'', JNumber 0)] \<rparr>"

















text \<open>
  A choice node with the three choice edges \<open>A\<close>, \<open>B\<close> and \<open>C\<close>, and the request whose
  last message is the function call that selects \<open>B\<close>.
\<close>

definition C7_args :: string where
  \<open>C7_args = ''{"choice":"B"}''\<close>

definition C7_env :: js_env where
  "C7_env = fixture_env\<lparr>JSON_parse :=
     (\<lambda>s. if s = C7_args then Some (JObject [(''choice'', JString ''B'')]) else None)\<rparr>"

definition C7_request :: request where
  "C7_request =
     \<lparr> req_messages = Some [
         \<lparr>role = ''user'', msg_content = Some ''pick one'', function_call = None\<rparr>,
         \<lparr>role = ''assistant'', msg_content = None,
          function_call = Some (''choice'', C7_args)\<rparr>],
       req_fields = [] \<rparr>"

definition C7_node :: cannoli_object where
  "C7_node = (fixture ''n'' Node ChooseNode)
     \<lparr>outgoingEdges := [(''ea'', False), (''eb'', False), (''ec'', False)]\<rparr>"

definition C7_graph :: graph where
  "C7_graph = [
     ''n'' \<mapsto> C7_node,
     ''ea'' \<mapsto> (fixture ''ea'' Edge CannoliEdge)\<lparr>type' := OfEdge EdgeType_Choice, text' := ''A''\<rparr>,
     ''eb'' \<mapsto> (fixture ''eb'' Edge CannoliEdge)\<lparr>type' := OfEdge EdgeType_Choice, text' := ''B''\<rparr>,
     ''ec'' \<mapsto> (fixture ''ec'' Edge CannoliEdge)\<lparr>type' := OfEdge EdgeType_Choice, text' := ''C''\<rparr>]"

text \<open>
  A group labelled \<open>abc\<close>, without colour, around one node; the node is indicated as a
  call node, which is not the non-logic type.
\<close>

definition C8_group :: cannoli_object where
  "C8_group = (fixture ''g'' Group CannoliGroup)\<lparr>text' := ''abc'', members := [''n'']\<rparr>"

definition C8_graph :: graph where
  "C8_graph = [
     ''g'' \<mapsto> C8_group,
     ''n'' \<mapsto> (fixture ''n'' Node CannoliNode)\<lparr>text' := ''hello'', groups := [''g'']\<rparr>]"

definition C8_other :: "cannoli_object \<Rightarrow> indicated_type" where
  "C8_other ob = IndicatedNode (IndicatedNodeType_other ''call'')"

text \<open>
  The text of an inherited property, as one implementation prints a built-in function;
  the other values are not printed in the examples.
\<close>

definition C8_shown :: "indicated_type \<Rightarrow> string" where
  "C8_shown t = (case t of Inherited k \<Rightarrow> ''function '' @ k @ ''() { [native code] }''
                         | _ \<Rightarrow> [])"

text \<open>
  The role markers of a string: the successive matches of the pattern, each searched from
  the end of the one before, with its index, its role and its end.
\<close>

function all_matches :: "regex \<Rightarrow> string \<Rightarrow> nat \<Rightarrow> (nat \<times> string \<times> nat) list" where
  "all_matches rx str pos =
     (case regex_exec rx str pos of
        None \<Rightarrow> []
      | Some (idx, r, e) \<Rightarrow>
          if pos < e \<and> e \<le> length str then (idx, r, e) # all_matches rx str e else [])"
  by pat_completeness auto
termination
  by (relation "measure (\<lambda>(rx, str, pos). Suc (length str) - pos)") auto

declare all_matches.simps [simp del]

text \<open>
  One message for each marker: its role, and the trimmed text from the end of the marker
  to the start of the next marker, or to the end of the string for the last marker.
\<close>

fun messages_of :: "string \<Rightarrow> (nat \<times> string \<times> nat) list \<Rightarrow> message list" where
  "messages_of str [] = []"
| "messages_of str [(idx, r, e)] =
     [\<lparr>role = r, msg_content = Some (trim (substring str e (length str))),
       function_call = None\<rparr>]"
| "messages_of str ((idx, r, e) # (idx2, r2, e2) # ms) =
     \<lparr>role = r, msg_content = Some (trim (substring str e idx2)), function_call = None\<rparr> #
     messages_of str ((idx2, r2, e2) # ms)"

section \<open>Properties\<close>

lemma allEdgeDependenciesComplete_loop_append:
  "allEdgeDependenciesComplete_loop g pre = Inr True \<Longrightarrow>
   allEdgeDependenciesComplete_loop g (pre @ rest) = allEdgeDependenciesComplete_loop g rest"
proof (induction g pre rule: allEdgeDependenciesComplete_loop.induct)
  case (1 g)
  then show ?case by simp
next
  case (2 g ds rest')
  then show ?case by (simp split: sum.splits if_splits)
next
  case (3 g d rest')
  then show ?case by (simp split: option.splits if_splits)
qed

text \<open>
  Claim C5. In the all-edge-dependencies check of a group, a dependency entry that is an
  array of two ids, both in the graph, is satisfied exactly when at least one of the two
  objects is Complete and both are of edge kind: one completion is enough, whatever the
  status of the other, when both are edges, and no completion satisfies the entry when
  one of them is not an edge. The entries before it being satisfied, the check then goes
  on with the entries after it, and answers false otherwise.
\<close>

theorem C5_or_entry_satisfied:
  assumes "g a = Some ea" and "g b = Some eb"
    and "dependencies this = pre @ DepArray [a, b] # post"
    and "allEdgeDependenciesComplete_loop g pre = Inr True"
  shows "allEdgeDependenciesComplete g this =
           (if (status ea = Complete \<or> status eb = Complete) \<and> kind ea = Edge \<and> kind eb = Edge
            then allEdgeDependenciesComplete_loop g post else Inr False)"
  using assms
  by (simp add: allEdgeDependenciesComplete_def allEdgeDependenciesComplete_loop_append)

theorem C5_or_entry_satisfied_witness:
  "C5_graph ''a'' = Some ((fixture ''a'' Edge CannoliEdge)\<lparr>status := Complete\<rparr>) \<and>
   C5_graph ''b'' = Some ((fixture ''b'' Edge CannoliEdge)\<lparr>status := Rejected\<rparr>) \<and>
   dependencies C5_group = [] @ DepArray [''a'', ''b''] # [] \<and>
   allEdgeDependenciesComplete_loop C5_graph [] = Inr True \<and>
   allEdgeDependenciesComplete C5_graph C5_group = Inr True"
proof -
  have a: "C5_graph ''a'' = Some ((fixture ''a'' Edge CannoliEdge)\<lparr>status := Complete\<rparr>)"
    by (simp add: C5_graph_def)
  have b: "C5_graph ''b'' = Some ((fixture ''b'' Edge CannoliEdge)\<lparr>status := Rejected\<rparr>)"
    by (simp add: C5_graph_def)
  have d: "dependencies C5_group = [] @ DepArray [''a'', ''b''] # []"
    by (simp add: C5_group_def fixture_def)
  have p: "allEdgeDependenciesComplete_loop C5_graph [] = Inr True" by simp
  from C5_or_entry_satisfied [OF a b d p] a b d p show ?thesis
    by (simp add: fixture_def)
qed

lemma reset_shape:
  "outgoingEdges (reset env ob) = outgoingEdges ob" "members (reset env ob) = members ob"
  by (simp_all add: reset_def CannoliEdge_reset_def RepeatGroup_reset_def
      ContentNode_reset_def CannoliObject_reset_def)

lemma same_shape_refl: "same_shape g g"
  by (simp add: same_shape_def option.rel_refl)

lemma same_shape_trans: "same_shape g g1 \<Longrightarrow> same_shape g1 g2 \<Longrightarrow> same_shape g g2"
  unfolding same_shape_def
proof (intro allI)
  fix x
  assume a: "\<forall>x. rel_option (\<lambda>a b. outgoingEdges a = outgoingEdges b \<and> members a = members b) (g x) (g1 x)"
    and b: "\<forall>x. rel_option (\<lambda>a b. outgoingEdges a = outgoingEdges b \<and> members a = members b) (g1 x) (g2 x)"
  from a b have "rel_option (\<lambda>a b. outgoingEdges a = outgoingEdges b \<and> members a = members b) (g x) (g1 x)"
    "rel_option (\<lambda>a b. outgoingEdges a = outgoingEdges b \<and> members a = members b) (g1 x) (g2 x)"
    by blast+
  then show "rel_option (\<lambda>a b. outgoingEdges a = outgoingEdges b \<and> members a = members b) (g x) (g2 x)"
    by (cases "g x"; cases "g1 x"; cases "g2 x") auto
qed

lemma same_shape_upd:
  "g x = Some ob \<Longrightarrow> same_shape g (g(x \<mapsto> reset env ob))"
  by (simp add: same_shape_def reset_shape option.rel_refl)

lemma same_shape_dom: "same_shape g g' \<Longrightarrow> (g' x \<noteq> None) = (g x \<noteq> None)"
proof -
  assume "same_shape g g'"
  then have "rel_option (\<lambda>a b. outgoingEdges a = outgoingEdges b \<and> members a = members b) (g x) (g' x)"
    by (simp add: same_shape_def)
  then show ?thesis by (cases "g x"; cases "g' x") simp_all
qed

lemma resettable_shape:
  assumes "same_shape g g'" "resettable g gid ms"
  shows "resettable g' gid ms"
proof -
  have "\<And>m. (case g m of None \<Rightarrow> False
         | Some mo \<Rightarrow> list_all (\<lambda>e. fst e \<noteq> gid \<and> g (fst e) \<noteq> None) (outgoingEdges mo))
     \<Longrightarrow> (case g' m of None \<Rightarrow> False
         | Some mo \<Rightarrow> list_all (\<lambda>e. fst e \<noteq> gid \<and> g' (fst e) \<noteq> None) (outgoingEdges mo))"
  proof -
    fix m
    assume h: "case g m of None \<Rightarrow> False
         | Some mo \<Rightarrow> list_all (\<lambda>e. fst e \<noteq> gid \<and> g (fst e) \<noteq> None) (outgoingEdges mo)"
    then obtain mo where mo: "g m = Some mo" by (cases "g m") auto
    from assms(1) have "rel_option (\<lambda>a b. outgoingEdges a = outgoingEdges b \<and> members a = members b) (g m) (g' m)"
      by (simp add: same_shape_def)
    with mo obtain mo' where mo': "g' m = Some mo'" "outgoingEdges mo' = outgoingEdges mo"
      by (cases "g' m") auto
    from h mo have "list_all (\<lambda>e. fst e \<noteq> gid \<and> g (fst e) \<noteq> None) (outgoingEdges mo)" by simp
    then have "list_all (\<lambda>e. fst e \<noteq> gid \<and> g' (fst e) \<noteq> None) (outgoingEdges mo)"
      using same_shape_dom [OF assms(1)] by (simp add: list_all_iff)
    with mo' show "case g' m of None \<Rightarrow> False
         | Some mo \<Rightarrow> list_all (\<lambda>e. fst e \<noteq> gid \<and> g' (fst e) \<noteq> None) (outgoingEdges mo)"
      by simp
  qed
  with assms(2) show ?thesis
    by (auto simp: resettable_def list_all_iff)
qed

lemma reset_outgoingEdges_ok:
  "list_all (\<lambda>e. fst e \<noteq> gid \<and> g (fst e) \<noteq> None) es \<Longrightarrow>
   \<exists>g'. reset_outgoingEdges env es g = Inr g' \<and> same_shape g g' \<and> g' gid = g gid"
proof (induction es arbitrary: g)
  case Nil
  then show ?case by (simp add: same_shape_refl)
next
  case (Cons e es)
  then obtain eo where eo: "g (fst e) = Some eo" by auto
  let ?g1 = "g(fst e \<mapsto> reset env eo)"
  have s1: "same_shape g ?g1" using eo by (rule same_shape_upd)
  from Cons.prems have "list_all (\<lambda>e. fst e \<noteq> gid \<and> ?g1 (fst e) \<noteq> None) es"
    by (auto simp: list_all_iff)
  from Cons.IH [OF this] obtain g' where
    g': "reset_outgoingEdges env es ?g1 = Inr g'" "same_shape ?g1 g'" "g' gid = ?g1 gid"
    by blast
  from Cons.prems have ne: "fst e \<noteq> gid" by simp
  have r: "reset_outgoingEdges env (e # es) g = Inr g'" using eo g'(1) by simp
  have s: "same_shape g g'" using s1 g'(2) by (rule same_shape_trans)
  have k: "g' gid = g gid" using g'(3) ne by simp
  from r s k show ?case by blast
qed

lemma resetMembers_loop_ok:
  "resettable g gid ms \<Longrightarrow>
   \<exists>g'. resetMembers_loop env ms g = Inr g' \<and> same_shape g g' \<and> g' gid = g gid"
proof (induction ms arbitrary: g)
  case Nil
  then show ?case by (simp add: same_shape_refl)
next
  case (Cons m ms)
  from Cons.prems obtain mo where mo: "g m = Some mo" "m \<noteq> gid"
    and es: "list_all (\<lambda>e. fst e \<noteq> gid \<and> g (fst e) \<noteq> None) (outgoingEdges mo)"
    and rest: "resettable g gid ms"
    by (auto simp: resettable_def split: option.splits)
  let ?g1 = "g(m \<mapsto> reset env mo)"
  have s1: "same_shape g ?g1" using mo(1) by (rule same_shape_upd)
  from es have "list_all (\<lambda>e. fst e \<noteq> gid \<and> ?g1 (fst e) \<noteq> None) (outgoingEdges (reset env mo))"
    by (auto simp: list_all_iff reset_shape)
  from reset_outgoingEdges_ok [OF this] obtain g2 where
    g2: "reset_outgoingEdges env (outgoingEdges (reset env mo)) ?g1 = Inr g2"
      "same_shape ?g1 g2" "g2 gid = ?g1 gid"
    by blast
  have s2: "same_shape g g2" using s1 g2(2) by (rule same_shape_trans)
  from resettable_shape [OF s2 rest] Cons.IH obtain g' where
    g': "resetMembers_loop env ms g2 = Inr g'" "same_shape g2 g'" "g' gid = g2 gid"
    by blast
  have r: "resetMembers_loop env (m # ms) g = Inr g'" using mo(1) g2(1) g'(1) by simp
  have s: "same_shape g g'" using s2 g'(2) by (rule same_shape_trans)
  have k: "g' gid = g gid" using g'(3) g2(3) mo(2) by simp
  from r s k show ?case by blast
qed

lemma reset_outgoingEdges_keeps:
  "reset env e = e \<Longrightarrow> g x = Some e \<Longrightarrow> reset_outgoingEdges env es g = Inr g' \<Longrightarrow>
   g' x = Some e"
proof (induction es arbitrary: g)
  case Nil
  then show ?case by simp
next
  case (Cons a es)
  from Cons.prems(3) obtain eo where eo: "g (fst a) = Some eo"
    and r: "reset_outgoingEdges env es (g(fst a \<mapsto> reset env eo)) = Inr g'"
    by (auto split: option.splits)
  have "(g(fst a \<mapsto> reset env eo)) x = Some e"
    using Cons.prems(1,2) eo by (cases "fst a = x") simp_all
  from Cons.IH [OF Cons.prems(1) this r] show ?case .
qed

lemma resetMembers_loop_keeps:
  "reset env e = e \<Longrightarrow> g x = Some e \<Longrightarrow> resetMembers_loop env ms g = Inr g' \<Longrightarrow>
   g' x = Some e"
proof (induction ms arbitrary: g)
  case Nil
  then show ?case by simp
next
  case (Cons m ms)
  from Cons.prems(3) obtain mo g1 where mo: "g m = Some mo"
    and g1: "reset_outgoingEdges env (outgoingEdges (reset env mo)) (g(m \<mapsto> reset env mo)) = Inr g1"
    and r: "resetMembers_loop env ms g1 = Inr g'"
    by (auto split: option.splits sum.splits)
  have "(g(m \<mapsto> reset env mo)) x = Some e"
    using Cons.prems(1,2) mo by (cases "m = x") simp_all
  from reset_outgoingEdges_keeps [OF Cons.prems(1) this g1] have "g1 x = Some e" .
  from Cons.IH [OF Cons.prems(1) this r] show ?case .
qed

lemma reset_reflexive_edge:
  "instanceof (cls e) CannoliEdge \<Longrightarrow> isReflexive e \<Longrightarrow> reset env e = e"
  by (simp add: reset_def CannoliEdge_reset_def)
















lemma funpow_fixed: "f x = x \<Longrightarrow> (f ^^ n) x = x"
  by (induction n) simp_all

text \<open>
  Claim C4. For an edge with \<open>isReflexive\<close> set, any number of \<open>reset\<close>s leaves the whole
  object, in particular its content and its status, as it was, and the object is still in
  the graph unchanged after \<open>resetMembers\<close> of any group; for an edge with \<open>isReflexive\<close>
  not set, \<open>reset\<close> clears the content and returns the status to Pending.
\<close>

theorem C4_edge_reset:
  assumes "instanceof (cls e) CannoliEdge"
  shows "(isReflexive e \<longrightarrow>
            (reset env ^^ n) e = e \<and>
            (\<forall>g gid g' x. g x = Some e \<and> resetMembers env gid g = Inr g' \<longrightarrow> g' x = Some e)) \<and>
         (\<not> isReflexive e \<longrightarrow>
            content (reset env e) = None \<and> status (reset env e) = Pending)"
proof (intro conjI impI allI)
  assume "isReflexive e"
  with assms have fx: "reset env e = e" by (rule reset_reflexive_edge)
  then show "(reset env ^^ n) e = e" by (rule funpow_fixed)
  fix g gid g' x
  assume "g x = Some e \<and> resetMembers env gid g = Inr g'"
  then show "g' x = Some e"
    using resetMembers_loop_keeps [OF fx]
    by (auto simp: resetMembers_def split: option.splits)
next
  assume "\<not> isReflexive e"
  with assms show "content (reset env e) = None" "status (reset env e) = Pending"
    by (simp_all add: reset_def CannoliEdge_reset_def CannoliObject_reset_def)
qed

theorem C4_edge_reset_witness:
  "(reset fixture_env ^^ 3) (the (C3_graph ''e'')) = the (C3_graph ''e'') \<and>
   content (the (C3_graph ''e'')) = Some (Text ''acc'') \<and>
   (\<exists>g'. resetMembers fixture_env ''loop'' C3_graph = Inr g' \<and> g' ''e'' = C3_graph ''e'') \<and>
   content (reset fixture_env C4_plain) = None \<and> status (reset fixture_env C4_plain) = Pending"
proof -
  let ?e = "(fixture ''e'' Edge CannoliEdge)
                 \<lparr>status := Complete, source := ''n'', target := ''n'', isReflexive := True,
                  content := Some (Text ''acc'')\<rparr>"
  have e: "C3_graph ''e'' = Some ?e" by (simp add: C3_graph_def)
  have ce: "instanceof (cls ?e) CannoliEdge" by (simp add: fixture_def instanceof_def)
  have re: "isReflexive ?e" by simp
  have cp: "instanceof (cls C4_plain) CannoliEdge"
    by (simp add: C4_plain_def fixture_def instanceof_def)
  have np: "\<not> isReflexive C4_plain" by (simp add: C4_plain_def fixture_def)
  have "resettable C3_graph ''loop'' [''n'']"
    by (simp add: resettable_def C3_graph_def fixture_def)
  from resetMembers_loop_ok [OF this, of fixture_env] obtain g' where
    g': "resetMembers fixture_env ''loop'' C3_graph = Inr g'"
    by (auto simp: resetMembers_def C3_graph_def fixture_def)
  from C4_edge_reset [OF ce, where env = fixture_env and n = 3] re e g'
  have 1: "(reset fixture_env ^^ 3) ?e = ?e" and 2: "g' ''e'' = Some ?e"
    by blast+
  from C4_edge_reset [OF cp, where env = fixture_env and n = 0] np
  have 3: "content (reset fixture_env C4_plain) = None \<and> status (reset fixture_env C4_plain) = Pending"
    by blast
  from 1 2 3 e g' show ?thesis by simp
qed

text \<open>
  Claim C2, at a failing input. The group \<open>g\<close> has one incoming edge \<open>e\<close>, not
  reflexive and Complete, and one member node \<open>n\<close>. \<open>setMembers\<close> makes \<open>n\<close> a dependency
  of the group; the group is Pending and its only edge dependency is Complete, and
  \<open>dependencyCompleted\<close> does not call \<open>execute\<close>, because
  \<open>allEdgeDependenciesComplete\<close> answers false on the member, which is not an edge.
\<close>

theorem C2_group_with_member_does_not_execute:
  "\<exists>g1 this e. setMembers [''g'', ''n'', ''e''] ''g'' C2_graph = Inr g1 \<and>
     g1 ''g'' = Some this \<and> status this = Pending \<and>
     dependencies this = [DepId ''e'', DepId ''n''] \<and>
     g1 ''e'' = Some e \<and> status e = Complete \<and>
     CannoliGroup_dependencyCompleted g1 this = Inr NoCall"
  by (simp add: C2_graph_def fixture_def instanceof_CannoliVertex_def instanceof_def
      addDependency_def CannoliGroup_dependencyCompleted_def allEdgeDependenciesComplete_def)

text \<open>
  Claim C1, as amended, in three parts. First, whenever \<open>dependencyCompleted\<close> calls
  \<open>execute\<close> on an object that is not a logging edge, and, when the object is a content
  node, the dependency is not one on which a content node executes regardless of its
  status (a logging edge that crosses out of no ForEach group, or a chat response edge),
  the status of the object is Pending. Second, a logging edge whose source is in the graph
  calls \<open>execute\<close> exactly when the source is Complete and every ForEach group it crosses
  out of is Complete, whatever its own status \<open>s\<close>. Third, a content node calls
  \<open>execute\<close> on a logging edge that crosses out of no ForEach group and on a chat response
  edge, whatever its own status \<open>s\<close>.
\<close>

theorem C1_execute_only_when_pending:
  "(dependencyCompleted g this dep = Inr CallExecute \<and>
    \<not> instanceof (cls this) LoggingEdge \<and>
    (instanceof (cls this) ContentNode \<longrightarrow> loggingOrChatResponse g dep \<noteq> Inr True)
      \<longrightarrow> status this = Pending) \<and>
   (instanceof (cls this) LoggingEdge \<and> g (source this) = Some src \<longrightarrow>
      (\<forall>s. dependencyCompleted g (this\<lparr>status := s\<rparr>) dep =
            Inr (if status src = Complete \<and> forEachGroupsComplete g (crossingOutGroups this)
                 then CallExecute else NoCall))) \<and>
   (instanceof (cls this) ContentNode \<and> loggingOrChatResponse g dep = Inr True \<longrightarrow>
      (\<forall>s. dependencyCompleted g (this\<lparr>status := s\<rparr>) dep = Inr CallExecute))"
proof (intro conjI impI allI)
  assume a: "dependencyCompleted g this dep = Inr CallExecute \<and>
    \<not> instanceof (cls this) LoggingEdge \<and>
    (instanceof (cls this) ContentNode \<longrightarrow> loggingOrChatResponse g dep \<noteq> Inr True)"
  have e: "CannoliEdge_dependencyCompleted g this = Inr CallExecute \<Longrightarrow> status this = Pending"
    by (auto simp: CannoliEdge_dependencyCompleted_def split: sum.splits if_splits)
  have n: "CannoliNode_dependencyCompleted g this = Inr CallExecute \<Longrightarrow> status this = Pending"
    by (auto simp: CannoliNode_dependencyCompleted_def split: sum.splits if_splits)
  have gr: "CannoliGroup_dependencyCompleted g this = Inr CallExecute \<Longrightarrow> status this = Pending"
    by (cases "status this")
       (auto simp: CannoliGroup_dependencyCompleted_def split: sum.splits if_splits)
  have c: "ContentNode_dependencyCompleted g this dep = Inr CallExecute \<Longrightarrow>
           loggingOrChatResponse g dep \<noteq> Inr True \<Longrightarrow> status this = Pending"
    using n by (auto simp: ContentNode_dependencyCompleted_def split: sum.splits if_splits)
  from a e n gr c show "status this = Pending"
    by (auto simp: dependencyCompleted_def FloatingNode_dependencyCompleted_def
        split: if_splits)
next
  fix s
  assume "instanceof (cls this) LoggingEdge \<and> g (source this) = Some src"
  then show "dependencyCompleted g (this\<lparr>status := s\<rparr>) dep =
            Inr (if status src = Complete \<and> forEachGroupsComplete g (crossingOutGroups this)
                 then CallExecute else NoCall)"
    by (simp add: dependencyCompleted_def LoggingEdge_dependencyCompleted_def)
next
  fix s
  assume a: "instanceof (cls this) ContentNode \<and> loggingOrChatResponse g dep = Inr True"
  then have "\<not> instanceof (cls this) LoggingEdge \<and> \<not> instanceof (cls this) CannoliEdge \<and>
             \<not> instanceof (cls this) CannoliGroup \<and> \<not> instanceof (cls this) FloatingNode"
    by (cases "cls this") (simp_all add: instanceof_def)
  with a show "dependencyCompleted g (this\<lparr>status := s\<rparr>) dep = Inr CallExecute"
    by (simp add: dependencyCompleted_def ContentNode_dependencyCompleted_def)
qed

theorem C1_execute_only_when_pending_witness:
  "dependencyCompleted C1_graph (the (C1_graph ''e'')) (the (C1_graph ''src'')) = Inr CallExecute \<and>
   status (the (C1_graph ''e'')) = Pending \<and>
   (\<forall>s. dependencyCompleted C1_graph ((the (C1_graph ''log''))\<lparr>status := s\<rparr>)
          (the (C1_graph ''src'')) = Inr CallExecute) \<and>
   (\<forall>s. dependencyCompleted C1_graph ((the (C1_graph ''out''))\<lparr>status := s\<rparr>)
          (the (C1_graph ''log'')) = Inr CallExecute)"
proof -
  let ?e = "the (C1_graph ''e'')" and ?s = "the (C1_graph ''src'')"
  let ?l = "the (C1_graph ''log'')" and ?o = "the (C1_graph ''out'')"
  have a: "dependencyCompleted C1_graph ?e ?s = Inr CallExecute"
    by (simp add: C1_graph_def fixture_def dependencyCompleted_def instanceof_def
        CannoliEdge_dependencyCompleted_def allDependenciesComplete_def)
  have b: "\<not> instanceof (cls ?e) LoggingEdge"
    by (simp add: C1_graph_def fixture_def instanceof_def)
  have c: "instanceof (cls ?e) ContentNode \<longrightarrow> loggingOrChatResponse C1_graph ?s \<noteq> Inr True"
    by (simp add: C1_graph_def fixture_def instanceof_def)
  have l: "instanceof (cls ?l) LoggingEdge \<and> C1_graph (source ?l) = Some ?s"
    by (simp add: C1_graph_def fixture_def instanceof_def)
  have lc: "status ?s = Complete \<and> forEachGroupsComplete C1_graph (crossingOutGroups ?l)"
    by (simp add: C1_graph_def fixture_def forEachGroupsComplete_def)
  have o: "instanceof (cls ?o) ContentNode \<and> loggingOrChatResponse C1_graph ?l = Inr True"
    by (simp add: C1_graph_def fixture_def instanceof_def loggingOrChatResponse_def)
  from C1_execute_only_when_pending [of C1_graph ?e ?s] a b c
  have 1: "status ?e = Pending" by blast
  from C1_execute_only_when_pending [of C1_graph ?l ?s ?s] l lc
  have 2: "\<forall>s. dependencyCompleted C1_graph (?l\<lparr>status := s\<rparr>) ?s = Inr CallExecute"
    by simp
  from C1_execute_only_when_pending [of C1_graph ?o ?l] o
  have 3: "\<forall>s. dependencyCompleted C1_graph (?o\<lparr>status := s\<rparr>) ?l = Inr CallExecute"
    by blast
  from a 1 2 3 show ?thesis by blast
qed

text \<open>
  Claim C1, as stated, fails: a logging edge that is already Complete executes again when
  its source completes, and a content node that is already Complete executes again when
  a logging edge completes.
\<close>

theorem C1_logging_edge_counterexample:
  "status (the (C1_graph ''log'')) = Complete \<and>
   dependencyCompleted C1_graph (the (C1_graph ''log'')) (the (C1_graph ''src'')) = Inr CallExecute \<and>
   status (the (C1_graph ''out'')) = Complete \<and>
   dependencyCompleted C1_graph (the (C1_graph ''out'')) (the (C1_graph ''log'')) = Inr CallExecute"
  by (simp add: C1_graph_def fixture_def dependencyCompleted_def instanceof_def
      LoggingEdge_dependencyCompleted_def forEachGroupsComplete_def
      ContentNode_dependencyCompleted_def loggingOrChatResponse_def)

text \<open>
  Claim C10. \<open>LoggingEdge.load\<close> throws whenever it is invoked without a request, whatever
  the content, the edge and the graph: it neither rejects the edge nor returns; and it
  throws in no other case.
\<close>

theorem C10_logging_load_without_request_throws:
  "LoggingEdge_load g this c None =
     Inl (Error ''Logging edge was loaded without a request, this should never happen'') \<and>
   (\<exists>this'. LoggingEdge_load g this c (Some r) = Inr this')"
  by (simp add: LoggingEdge_load_def Let_def)

lemma startsWith_length: "startsWith s p \<Longrightarrow> length p \<le> length s"
proof -
  assume "startsWith s p"
  then have "length (take (length p) s) = length p" by (simp add: startsWith_def)
  then show ?thesis by simp
qed

lemma match_roles_bounds:
  "match_roles pre post rs s = Some (r, n) \<Longrightarrow> [] \<notin> set rs \<Longrightarrow> 0 < n \<and> n \<le> length s"
proof (induction rs)
  case Nil
  then show ?case by simp
next
  case (Cons a rs)
  show ?case
  proof (cases "startsWith s (pre @ a @ post)")
    case True
    with Cons.prems have "n = length (pre @ a @ post)" "a \<noteq> []" by auto
    with startsWith_length [OF True] show ?thesis by simp
  next
    case False
    with Cons show ?thesis by simp
  qed
qed

lemma match_at_bounds: "match_at rx s = Some (r, n) \<Longrightarrow> 0 < n \<and> n \<le> length s"
proof (cases rx)
  case (RoleRegex pre post)
  assume "match_at rx s = Some (r, n)"
  with RoleRegex have "match_roles pre post [''system'', ''user'', ''assistant''] s = Some (r, n)"
    by (simp del: match_roles.simps)
  from match_roles_bounds [OF this] show ?thesis by simp
qed

lemma search_bounds:
  "search rx s i = Some (idx, r, e) \<Longrightarrow> i \<le> idx \<and> idx < e \<and> e \<le> i + length s"
proof (induction s arbitrary: i)
  case Nil
  then show ?case by (auto split: option.splits dest: match_at_bounds)
next
  case (Cons c cs)
  show ?case
  proof (cases "match_at rx (c # cs)")
    case None
    with Cons.prems have "search rx cs (Suc i) = Some (idx, r, e)" by simp
    from Cons.IH [OF this] show ?thesis by simp
  next
    case (Some a)
    obtain r' n where a: "a = (r', n)" by (cases a)
    from match_at_bounds [of rx "c # cs" r' n] Some a Cons.prems show ?thesis by auto
  qed
qed

lemma regex_exec_bounds:
  "regex_exec rx str pos = Some (idx, r, e) \<Longrightarrow> pos \<le> idx \<and> idx < e \<and> e \<le> length str"
proof -
  assume a: "regex_exec rx str pos = Some (idx, r, e)"
  then have le: "pos \<le> length str" and s: "search rx (drop pos str) pos = Some (idx, r, e)"
    by (auto simp: regex_exec_def split: if_splits)
  from search_bounds [OF s] le show ?thesis by simp
qed

lemma all_matches_None: "regex_exec rx str pos = None \<Longrightarrow> all_matches rx str pos = []"
  by (simp add: all_matches.simps)

lemma all_matches_Some:
  "regex_exec rx str pos = Some (idx, r, e) \<Longrightarrow>
   all_matches rx str pos = (idx, r, e) # all_matches rx str e"
  using regex_exec_bounds [of rx str pos idx r e]
  by (subst all_matches.simps) simp

lemma all_matches_Nil_iff: "all_matches rx str pos = [] \<longleftrightarrow> regex_exec rx str pos = None"
proof (cases "regex_exec rx str pos")
  case None
  then show ?thesis by (simp add: all_matches_None)
next
  case (Some a)
  obtain idx r e where "a = (idx, r, e)" by (cases a)
  with Some all_matches_Some [of rx str pos idx r e] show ?thesis by simp
qed

lemma stringToArray_loop_all_matches:
  "stringToArray_loop rx str pos msgs lastIndex =
     Some (msgs @ messages_of str (all_matches rx str pos),
           if all_matches rx str pos = [] then lastIndex else length str)"
proof (induction rx str pos msgs lastIndex rule: stringToArray_loop.induct)
  case (1 rx str pos msgs lastIndex)
  show ?case
  proof (cases "regex_exec rx str pos")
    case None
    then show ?thesis by (simp add: stringToArray_loop.simps all_matches_None)
  next
    case (Some a)
    obtain idx role' start where a: "a = (idx, role', start)" by (cases a)
    from regex_exec_bounds [of rx str pos idx role' start] Some a
    have b: "pos < start \<and> start \<le> length str" by simp
    define end' where "end' = (case regex_exec rx str start of
                           Some (nextIndex, r, e) \<Rightarrow> nextIndex
                         | None \<Rightarrow> length str)"
    define m where "m = \<lparr>role = role', msg_content = Some (trim (substring str start end')),
                          function_call = None\<rparr>"
    have am: "all_matches rx str pos = (idx, role', start) # all_matches rx str start"
      using Some a by (simp add: all_matches_Some)
    have step: "stringToArray_loop rx str pos msgs lastIndex =
                  stringToArray_loop rx str start (msgs @ [m]) end'"
      using Some a b
      by (subst stringToArray_loop.simps) (simp add: end'_def m_def Let_def)
    have ih: "stringToArray_loop rx str start (msgs @ [m]) end' =
                Some ((msgs @ [m]) @ messages_of str (all_matches rx str start),
                      if all_matches rx str start = [] then end' else length str)"
      using "1.IH" [OF Some [unfolded a] refl refl b end'_def refl] unfolding m_def .
    show ?thesis
    proof (cases "regex_exec rx str start")
      case None
      then have n: "all_matches rx str start = []" by (simp add: all_matches_None)
      from None have e: "end' = length str" by (simp add: end'_def)
      from step ih am n e show ?thesis by (simp add: m_def)
    next
      case (Some b')
      obtain i2 r2 e2 where b': "b' = (i2, r2, e2)" by (cases b')
      from Some b' have n: "all_matches rx str start = (i2, r2, e2) # all_matches rx str e2"
        by (simp add: all_matches_Some)
      from Some b' have e: "end' = i2" by (simp add: end'_def)
      from step ih am n e show ?thesis by (simp add: m_def)
    qed
  qed
qed

lemma messages_of_Nil_iff: "messages_of str ms = [] \<longleftrightarrow> ms = []"
  by (induction str ms rule: messages_of.induct) simp_all

text \<open>
  Claim C9, as amended. For a format whose pattern the model interprets: when the string
  contains no role marker, the result is a single user message with the whole trimmed
  string; when it contains role markers, the result holds exactly one message for each
  marker, in their order, with the role of the marker and the trimmed text from the end
  of the marker to the start of the next marker, or to the end of the string for the last
  one. No message is made of the text before the first marker, which is discarded; and no
  message is added after that of the last marker.
\<close>

theorem C9_stringToArray_first_message:
  assumes "compile (rolePattern format) = Some rx"
  shows "stringToArray str format =
           Some (if all_matches rx str 0 = []
                 then [\<lparr>role = ''user'', msg_content = Some (trim str), function_call = None\<rparr>]
                 else messages_of str (all_matches rx str 0))"
proof (cases "all_matches rx str 0 = []")
  case True
  with assms stringToArray_loop_all_matches [of rx str 0 "[]" 0] show ?thesis
    by (simp add: stringToArray_def)
next
  case False
  then have "messages_of str (all_matches rx str 0) \<noteq> []"
    by (simp add: messages_of_Nil_iff)
  with False assms stringToArray_loop_all_matches [of rx str 0 "[]" 0] show ?thesis
    by (simp add: stringToArray_def)
qed

theorem C9_stringToArray_first_message_witness:
  "compile (rolePattern ''{{role}}: {{content}}'') = Some (RoleRegex [] '':'') \<and>
   all_matches (RoleRegex [] '':'') ''intro assistant: hi user: there'' 0 =
     [(6, ''assistant'', 16), (20, ''user'', 25)] \<and>
   stringToArray ''intro assistant: hi user: there'' ''{{role}}: {{content}}'' =
     Some [\<lparr>role = ''assistant'', msg_content = Some ''hi'', function_call = None\<rparr>,
           \<lparr>role = ''user'', msg_content = Some ''there'', function_call = None\<rparr>] \<and>
   all_matches (RoleRegex [] '':'') ''  no markers '' 0 = [] \<and>
   stringToArray ''  no markers '' ''{{role}}: {{content}}'' =
     Some [\<lparr>role = ''user'', msg_content = Some ''no markers'', function_call = None\<rparr>]"
proof -
  have c: "compile (rolePattern ''{{role}}: {{content}}'') = Some (RoleRegex [] '':'')"
    by code_simp
  have m: "all_matches (RoleRegex [] '':'') ''intro assistant: hi user: there'' 0 =
     [(6, ''assistant'', 16), (20, ''user'', 25)]"
    by code_simp
  have t: "messages_of ''intro assistant: hi user: there''
             [(6, ''assistant'', 16), (20, ''user'', 25)] =
           [\<lparr>role = ''assistant'', msg_content = Some ''hi'', function_call = None\<rparr>,
            \<lparr>role = ''user'', msg_content = Some ''there'', function_call = None\<rparr>]"
    by code_simp
  have z: "all_matches (RoleRegex [] '':'') ''  no markers '' 0 = []"
    by code_simp
  have t2: "trim ''  no markers '' = ''no markers''"
    by code_simp
  from C9_stringToArray_first_message [OF c, of "''intro assistant: hi user: there''"] m t
  have 1: "stringToArray ''intro assistant: hi user: there'' ''{{role}}: {{content}}'' =
     Some [\<lparr>role = ''assistant'', msg_content = Some ''hi'', function_call = None\<rparr>,
           \<lparr>role = ''user'', msg_content = Some ''there'', function_call = None\<rparr>]"
    by simp
  from C9_stringToArray_first_message [OF c, of "''  no markers ''"] z t2
  have 2: "stringToArray ''  no markers '' ''{{role}}: {{content}}'' =
     Some [\<lparr>role = ''user'', msg_content = Some ''no markers'', function_call = None\<rparr>]"
    by simp
  from c m z 1 2 show ?thesis by blast
qed

text \<open>
  Claim C9, as stated, fails: the text \<open>intro\<close> before the first role marker is dropped,
  and the result holds no user message at all.
\<close>

theorem C9_leading_text_counterexample:
  "stringToArray ''intro assistant: hi'' ''{{role}}: {{content}}'' =
     Some [\<lparr>role = ''assistant'', msg_content = Some ''hi'', function_call = None\<rparr>]"
  by code_simp









text \<open>
  Claim C7. A choice node has the three outgoing edges \<open>ea\<close>, \<open>eb\<close>, \<open>ec\<close>, choice edges
  with the texts \<open>A\<close>, \<open>B\<close>, \<open>C\<close>; the last message of the request carries the arguments
  of the choice function, which parse as an object whose \<open>choice\<close> is \<open>B\<close>. Then
  \<open>loadOutgoingEdges\<close> rejects \<open>ea\<close> and \<open>ec\<close>, does not reject \<open>eb\<close>, and goes on to load
  the edges, \<open>eb\<close> among them, with the arguments: these are its calls, in this order;
  they leave \<open>eb\<close> loaded and not rejected, \<open>ea\<close> and \<open>ec\<close> rejected and then loaded, and
  the rest of the graph as it was.
\<close>

theorem C7_choice_rejects_unselected:
  assumes "map fst (outgoingEdges this) = [ea, eb, ec]"
    and "g ea = Some oa" and "g eb = Some ob" and "g ec = Some oc"
    and "type' oa = OfEdge EdgeType_Choice \<and> text' oa = ''A'' \<and> cls oa = CannoliEdge"
    and "type' ob = OfEdge EdgeType_Choice \<and> text' ob = ''B'' \<and> cls ob = CannoliEdge"
    and "type' oc = OfEdge EdgeType_Choice \<and> text' oc = ''C'' \<and> cls oc = CannoliEdge"
    and "type' this \<noteq> OfContentNode ContentNodeType_Http"
    and "req_messages req = Some msgs" and "msgs \<noteq> []"
    and "function_call (last msgs) = Some (name, args)" and "args \<noteq> []"
    and "JSON_parse env args = Some (JObject kvs)"
    and "get_property kvs ''choice'' = Some (JString ''B'')"
  shows "ChooseNode_loadOutgoingEdges env g this content' req =
           Inr (g(ea \<mapsto> CannoliEdge_load (CannoliObject_reject oa) args (Some req),
                  eb \<mapsto> CannoliEdge_load ob args (Some req),
                  ec \<mapsto> CannoliEdge_load (CannoliObject_reject oc) args (Some req)),
                [(ea, Reject), (ec, Reject),
                 (ea, Load args (Some req)), (eb, Load args (Some req)),
                 (ec, Load args (Some req))])"
proof -
  from assms(2-7) have ne: "ea \<noteq> eb" "ea \<noteq> ec" "eb \<noteq> ec" by auto
  let ?g1 = "g(ea \<mapsto> CannoliObject_reject oa, ec \<mapsto> CannoliObject_reject oc)"
  have r: "rejectUnselectedOptions [ea, eb, ec] (Some (JString ''B'')) g =
             Inr (?g1, [(ea, Reject), (ec, Reject)])"
    using assms(2-7) ne by simp
  have l: "CannoliNode_loadOutgoingEdges env ?g1 this args (Some req) =
             Inr (g(ea \<mapsto> CannoliEdge_load (CannoliObject_reject oa) args (Some req),
                    eb \<mapsto> CannoliEdge_load ob args (Some req),
                    ec \<mapsto> CannoliEdge_load (CannoliObject_reject oc) args (Some req)),
                  [(ea, Load args (Some req)), (eb, Load args (Some req)),
                   (ec, Load args (Some req))])"
    using assms(1-8) ne
    by (simp add: CannoliNode_loadOutgoingEdges_def listItems_of_def contentToLoad_def
        instanceof_def Edge_load_def CannoliObject_reject_def fun_upd_twist)
  from r l assms(1,9-14) show ?thesis
    by (simp add: ChooseNode_loadOutgoingEdges_def)
qed

theorem C7_choice_rejects_unselected_witness:
  "(case ChooseNode_loadOutgoingEdges C7_env C7_graph C7_node [] C7_request of
      Inl err \<Rightarrow> False
    | Inr (g', t) \<Rightarrow>
        t = [(''ea'', Reject), (''ec'', Reject),
             (''ea'', Load C7_args (Some C7_request)), (''eb'', Load C7_args (Some C7_request)),
             (''ec'', Load C7_args (Some C7_request))] \<and>
        map (\<lambda>e. map_option status (g' e)) [''ea'', ''eb'', ''ec''] =
          [Some Rejected, Some Pending, Some Rejected] \<and>
        map (\<lambda>e. map_option content (g' e)) [''ea'', ''eb'', ''ec''] =
          [Some (Some (Text C7_args)), Some (Some (Text C7_args)), Some (Some (Text C7_args))] \<and>
        g' ''n'' = C7_graph ''n'')"
proof -
  let ?msgs = "[\<lparr>role = ''user'', msg_content = Some ''pick one'', function_call = None\<rparr>,
         \<lparr>role = ''assistant'', msg_content = None,
          function_call = Some (''choice'', C7_args)\<rparr>]"
  have 1: "map fst (outgoingEdges C7_node) = [''ea'', ''eb'', ''ec'']"
    by (simp add: C7_node_def fixture_def)
  have 2: "C7_graph ''ea'' =
       Some ((fixture ''ea'' Edge CannoliEdge)\<lparr>type' := OfEdge EdgeType_Choice, text' := ''A''\<rparr>)"
    by (simp add: C7_graph_def)
  have 3: "C7_graph ''eb'' =
       Some ((fixture ''eb'' Edge CannoliEdge)\<lparr>type' := OfEdge EdgeType_Choice, text' := ''B''\<rparr>)"
    by (simp add: C7_graph_def)
  have 4: "C7_graph ''ec'' =
       Some ((fixture ''ec'' Edge CannoliEdge)\<lparr>type' := OfEdge EdgeType_Choice, text' := ''C''\<rparr>)"
    by (simp add: C7_graph_def)
  have 8: "type' C7_node \<noteq> OfContentNode ContentNodeType_Http"
    by (simp add: C7_node_def fixture_def)
  have 9: "req_messages C7_request = Some ?msgs" by (simp add: C7_request_def)
  have 11: "function_call (last ?msgs) = Some (''choice'', C7_args)" by simp
  have 12: "C7_args \<noteq> []" by (simp add: C7_args_def)
  have 13: "JSON_parse C7_env C7_args = Some (JObject [(''choice'', JString ''B'')])"
    by (simp add: C7_env_def)
  have 14: "get_property [(''choice'', JString ''B'')] ''choice'' = Some (JString ''B'')"
    by (simp add: get_property_def)
  have run: "ChooseNode_loadOutgoingEdges C7_env C7_graph C7_node [] C7_request =
     Inr (C7_graph(
            ''ea'' \<mapsto> CannoliEdge_load (CannoliObject_reject
                        ((fixture ''ea'' Edge CannoliEdge)
                           \<lparr>type' := OfEdge EdgeType_Choice, text' := ''A''\<rparr>))
                        C7_args (Some C7_request),
            ''eb'' \<mapsto> CannoliEdge_load
                        ((fixture ''eb'' Edge CannoliEdge)
                           \<lparr>type' := OfEdge EdgeType_Choice, text' := ''B''\<rparr>)
                        C7_args (Some C7_request),
            ''ec'' \<mapsto> CannoliEdge_load (CannoliObject_reject
                        ((fixture ''ec'' Edge CannoliEdge)
                           \<lparr>type' := OfEdge EdgeType_Choice, text' := ''C''\<rparr>))
                        C7_args (Some C7_request)),
          [(''ea'', Reject), (''ec'', Reject),
           (''ea'', Load C7_args (Some C7_request)), (''eb'', Load C7_args (Some C7_request)),
           (''ec'', Load C7_args (Some C7_request))])"
    by (rule C7_choice_rejects_unselected [OF 1 2 3 4 _ _ _ 8 9 _ 11 12 13 14])
       (simp_all add: fixture_def)
  show ?thesis
    unfolding run
    by (simp add: CannoliEdge_load_def CannoliObject_reject_def fixture_def C7_args_def
        C7_graph_def)
qed

lemma getIndicatedType_no_Error:
  "getIndicatedType n other g this \<noteq> Inl (Error msg)"
  "every_NonLogic n other g ms \<noteq> Inl (Error msg)"
proof (induction n other g this and n other g ms
    rule: getIndicatedType_every_NonLogic.induct)
  case (1 other g this)
  then show ?case by simp
next
  case (2 n other g this)
  then show ?case by (auto split: sum.splits)
next
  case (3 n other g)
  then show ?case by simp
next
  case (4 n other g member rest)
  then show ?case by (auto split: option.splits sum.splits if_splits)
qed

lemma getLabelNumber_abc: "text' this = ''abc'' \<Longrightarrow> getLabelNumber this = None"
  by (simp add: getLabelNumber_def GroupPrefixMap_def parseInt_def Let_def startsWith_def
      js_whitespace_def digit_value_def)

lemma getIndicatedType_abc:
  assumes "text' this = ''abc''"
    and "color this = None \<or> color this = Some [] \<or> \<not> in_GroupColorMap (the (color this))"
  shows "getIndicatedType (Suc n) other g this =
           (case every_NonLogic n other g (members this) of
              Inl e \<Rightarrow> Inl e
            | Inr b \<Rightarrow> Inr (IndicatedGroup (if b then IndicatedGroupType_NonLogic
                                              else IndicatedGroupType_Basic)))"
proof -
  have c: "\<not> (color this \<noteq> None \<and> color this \<noteq> Some [] \<and> in_GroupColorMap (the (color this)))"
    using assms(2) by auto
  have p: "\<not> (take 1 (text' this) \<noteq> [] \<and> GroupPrefixMap (take 1 (text' this)) \<noteq> None)"
    using assms(1) by (simp add: GroupPrefixMap_def)
  have l: "\<not> getLabelNumber this \<noteq> None"
    using getLabelNumber_abc [OF assms(1)] by simp
  show ?thesis
    by (simp only: getIndicatedType.simps if_not_P [OF p] if_not_P [OF c] if_not_P [OF l])
qed

lemma getIndicatedType_abc_inherited:
  assumes "text' this = ''abc''" and "color this = Some c" and "c \<in> set Object_prototype_keys"
  shows "getIndicatedType (Suc n) other g this = Inr (Inherited c)"
proof -
  have p: "\<not> (take 1 (text' this) \<noteq> [] \<and> GroupPrefixMap (take 1 (text' this)) \<noteq> None)"
    using assms(1) by (simp add: GroupPrefixMap_def)
  from assms(3) have ne: "c \<noteq> []" and n5: "c \<noteq> ''5''"
    by (auto simp: Object_prototype_keys_def)
  have c: "color this \<noteq> None \<and> color this \<noteq> Some [] \<and> in_GroupColorMap (the (color this))"
    using assms(2,3) ne by (simp add: in_GroupColorMap_def)
  have v: "GroupColorMap_get (the (color this)) = Inherited c"
    using assms(2) n5 by (simp add: GroupColorMap_get_def GroupColorMap_def)
  show ?thesis
    by (simp only: getIndicatedType.simps if_not_P [OF p] if_P [OF c] v)
qed

text \<open>
  Claim C8, as amended. For a group whose label is \<open>abc\<close>, no label number is read. When
  the group has no colour indicator, that is no colour, or a colour that is not a key
  found in the colour map (the key \<open>5\<close> of the map itself and the keys that every object
  inherits), construction reports no configuration error: \<open>createTyped\<close> never throws an
  \<open>Error\<close>; when some member of the group is not indicated as non-logic, it produces a
  basic group; when every member is, it produces no object. When the colour is an
  inherited key, such as \<open>toString\<close>, the value read from the map is no group type and
  \<open>decideType\<close> throws its \<open>Error\<close>.
\<close>

theorem C8_label_abc_is_basic_or_dropped:
  assumes "text' this = ''abc''"
  shows "getLabelNumber this = None \<and>
         (color this = None \<or> color this = Some [] \<or> \<not> in_GroupColorMap (the (color this)) \<longrightarrow>
            (\<forall>k msg. createTyped shown k other g this \<noteq> Inl (Error msg)) \<and>
            (every_NonLogic n other g (members this) = Inr False \<longrightarrow>
               createTyped shown (Suc n) other g this =
                 Inr (Some (new_CannoliGroup (id' this) ''abc'' (color this) [] [] [] []))) \<and>
            (every_NonLogic n other g (members this) = Inr True \<longrightarrow>
               createTyped shown (Suc n) other g this = Inr None)) \<and>
         (\<forall>c. color this = Some c \<and> c \<in> set Object_prototype_keys \<longrightarrow>
            createTyped shown (Suc n) other g this =
              Inl (Error (''Error on object '' @ id' this @ '': indicated type '' @
                          shown (Inherited c) @ '' is not a valid group type.'')))"
proof (intro conjI allI impI)
  show "getLabelNumber this = None" using assms(1) by (rule getLabelNumber_abc)
next
  fix k msg
  assume col: "color this = None \<or> color this = Some [] \<or> \<not> in_GroupColorMap (the (color this))"
  show "createTyped shown k other g this \<noteq> Inl (Error msg)"
  proof (cases k)
    case 0
    then show ?thesis by (simp add: createTyped_def decideType_def)
  next
    case (Suc j)
    show ?thesis
    proof (cases "every_NonLogic j other g (members this)")
      case (Inl e)
      with getIndicatedType_no_Error(2) [of j other g "members this" msg]
      have "e \<noteq> Error msg" by auto
      with Inl Suc getIndicatedType_abc [OF assms col, of j other g] show ?thesis
        by (simp add: createTyped_def decideType_def)
    next
      case (Inr b)
      with Suc getIndicatedType_abc [OF assms col, of j other g] show ?thesis
        by (simp add: createTyped_def decideType_def)
    qed
  qed
next
  assume col: "color this = None \<or> color this = Some [] \<or> \<not> in_GroupColorMap (the (color this))"
  assume "every_NonLogic n other g (members this) = Inr False"
  with getIndicatedType_abc [OF assms col, of n other g] assms(1)
  show "createTyped shown (Suc n) other g this =
              Inr (Some (new_CannoliGroup (id' this) ''abc'' (color this) [] [] [] []))"
    by (simp add: createTyped_def decideType_def)
next
  assume col: "color this = None \<or> color this = Some [] \<or> \<not> in_GroupColorMap (the (color this))"
  assume "every_NonLogic n other g (members this) = Inr True"
  with getIndicatedType_abc [OF assms col, of n other g]
  show "createTyped shown (Suc n) other g this = Inr None"
    by (simp add: createTyped_def decideType_def)
next
  fix c
  assume "color this = Some c \<and> c \<in> set Object_prototype_keys"
  then have 1: "color this = Some c" and 2: "c \<in> set Object_prototype_keys" by simp_all
  from getIndicatedType_abc_inherited [OF assms 1 2, of n other g]
  show "createTyped shown (Suc n) other g this =
              Inl (Error (''Error on object '' @ id' this @ '': indicated type '' @
                          shown (Inherited c) @ '' is not a valid group type.''))"
    by (simp add: createTyped_def decideType_def)
qed

theorem C8_label_abc_is_basic_or_dropped_witness:
  "text' C8_group = ''abc'' \<and> color C8_group = None \<and>
   every_NonLogic 1 C8_other C8_graph (members C8_group) = Inr False \<and>
   createTyped C8_shown 2 C8_other C8_graph C8_group =
     Inr (Some (new_CannoliGroup ''g'' ''abc'' None [] [] [] [])) \<and>
   createTyped C8_shown 2 C8_other C8_graph (C8_group\<lparr>members := []\<rparr>) = Inr None \<and>
   \<not> in_GroupColorMap ''#ff0000'' \<and>
   createTyped C8_shown 2 C8_other C8_graph (C8_group\<lparr>color := Some ''#ff0000''\<rparr>) =
     Inr (Some (new_CannoliGroup ''g'' ''abc'' (Some ''#ff0000'') [] [] [] [])) \<and>
   ''toString'' \<in> set Object_prototype_keys \<and>
   createTyped C8_shown 2 C8_other C8_graph (C8_group\<lparr>color := Some ''toString''\<rparr>) =
     Inl (Error (''Error on object g: indicated type function toString() { [native code] }'' @
                 '' is not a valid group type.''))"
proof -
  have a: "text' C8_group = ''abc''" by (simp add: C8_group_def fixture_def)
  have b: "color C8_group = None" by (simp add: C8_group_def fixture_def)
  have c: "every_NonLogic 1 C8_other C8_graph (members C8_group) = Inr False"
    by (simp add: C8_group_def C8_graph_def C8_other_def fixture_def instanceof_def)
  have a': "text' (C8_group\<lparr>members := []\<rparr>) = ''abc''" by (simp add: C8_group_def fixture_def)
  have b': "color (C8_group\<lparr>members := []\<rparr>) = None"
    by (simp add: C8_group_def fixture_def)
  have c': "every_NonLogic 1 C8_other C8_graph (members (C8_group\<lparr>members := []\<rparr>)) = Inr True"
    by simp
  have a2: "text' (C8_group\<lparr>color := Some ''#ff0000''\<rparr>) = ''abc''"
    by (simp add: C8_group_def fixture_def)
  have b2: "\<not> in_GroupColorMap ''#ff0000''"
    by (simp add: in_GroupColorMap_def GroupColorMap_def Object_prototype_keys_def)
  have c2: "every_NonLogic 1 C8_other C8_graph (members (C8_group\<lparr>color := Some ''#ff0000''\<rparr>)) =
              Inr False"
    by (simp add: C8_group_def C8_graph_def C8_other_def fixture_def instanceof_def)
  have a3: "text' (C8_group\<lparr>color := Some ''toString''\<rparr>) = ''abc''"
    by (simp add: C8_group_def fixture_def)
  have b3: "''toString'' \<in> set Object_prototype_keys"
    by (simp add: Object_prototype_keys_def)
  have s: "Suc 1 = 2" by simp
  from C8_label_abc_is_basic_or_dropped [OF a, of C8_shown C8_other C8_graph 1] b c
  have 1: "createTyped C8_shown (Suc 1) C8_other C8_graph C8_group =
     Inr (Some (new_CannoliGroup (id' C8_group) ''abc'' (color C8_group) [] [] [] []))"
    by blast
  from C8_label_abc_is_basic_or_dropped [OF a', of C8_shown C8_other C8_graph 1] b' c'
  have 2: "createTyped C8_shown (Suc 1) C8_other C8_graph (C8_group\<lparr>members := []\<rparr>) = Inr None"
    by blast
  from C8_label_abc_is_basic_or_dropped [OF a2, of C8_shown C8_other C8_graph 1] b2 c2
  have 3: "createTyped C8_shown (Suc 1) C8_other C8_graph (C8_group\<lparr>color := Some ''#ff0000''\<rparr>) =
     Inr (Some (new_CannoliGroup (id' (C8_group\<lparr>color := Some ''#ff0000''\<rparr>)) ''abc''
                  (color (C8_group\<lparr>color := Some ''#ff0000''\<rparr>)) [] [] [] []))"
    by simp
  from C8_label_abc_is_basic_or_dropped [OF a3, of C8_shown C8_other C8_graph 1] b3
  have 4: "createTyped C8_shown (Suc 1) C8_other C8_graph (C8_group\<lparr>color := Some ''toString''\<rparr>) =
     Inl (Error (''Error on object '' @ id' (C8_group\<lparr>color := Some ''toString''\<rparr>) @
                 '': indicated type '' @ C8_shown (Inherited ''toString'') @
                 '' is not a valid group type.''))"
    by simp
  from a b c 1 2 b2 3 b3 4 show ?thesis
    unfolding s by (simp add: C8_group_def fixture_def C8_shown_def)
qed

text \<open>
  Claim C8, as stated, fails: for the group labelled \<open>abc\<close> around a call node,
  \<open>createTyped\<close> throws nothing and returns a basic group.
\<close>

theorem C8_label_abc_counterexample:
  "createTyped C8_shown 2 C8_other C8_graph C8_group =
     Inr (Some (new_CannoliGroup ''g'' ''abc'' None [] [] [] []))"
  by (simp add: createTyped_def decideType_def numeral_2_eq_2 getLabelNumber_def
      GroupPrefixMap_def GroupColorMap_def parseInt_def Let_def startsWith_def
      js_whitespace_def digit_value_def C8_group_def C8_graph_def C8_other_def fixture_def
      instanceof_def)

end
